theory Spec2Isabelle
  imports Complex_Main
begin

section \<open>JavaScript strings, arrays and numbers\<close>

text \<open>
  The two programs of the repository (\<^verbatim>\<open>src/server.ts\<close>, one tool, and the multi-tool
  variant \<^verbatim>\<open>src/unnamed/part_000\<close>, four tools) are TypeScript running on Node. Their strings are modelled as
  \<^typ>\<open>string\<close>, one \<^typ>\<open>char\<close> per ASCII character: the case conversions below change the
  letters A-Z and a-z only, and the white space of the regular expression \<^verbatim>\<open>\s\<close> is its ASCII
  part (tab, line feed, vertical tab, form feed, carriage return, space). The two non-ASCII
  characters of the source's literals (the bullet and the e-acute of the error message)
  appear as their UTF-8 bytes. Numbers are modelled as integers (\<^typ>\<open>int\<close>): the model
  agrees with JavaScript's doubles as long as every number is an integer below \<open>10^15\<close>
  in magnitude.
\<close>

definition is_upper :: "char \<Rightarrow> bool" where
  "is_upper c = (65 \<le> (of_char c :: nat) \<and> (of_char c :: nat) \<le> 90)"

definition is_lower :: "char \<Rightarrow> bool" where
  "is_lower c = (97 \<le> (of_char c :: nat) \<and> (of_char c :: nat) \<le> 122)"

definition lower_char :: "char \<Rightarrow> char" where
  "lower_char c = (if is_upper c then char_of ((of_char c :: nat) + 32) else c)"

definition upper_char :: "char \<Rightarrow> char" where
  "upper_char c = (if is_lower c then char_of ((of_char c :: nat) - 32) else c)"

text \<open>\<^verbatim>\<open>str.toLowerCase()\<close> and \<^verbatim>\<open>str.toUpperCase()\<close>.\<close>

definition toLowerCase :: "string \<Rightarrow> string" where
  "toLowerCase str = map lower_char str"

definition toUpperCase :: "string \<Rightarrow> string" where
  "toUpperCase str = map upper_char str"

text \<open>\<^verbatim>\<open>str.charAt(i)\<close>: the empty string when \<open>i\<close> is out of range.\<close>

definition charAt :: "string \<Rightarrow> nat \<Rightarrow> string" where
  "charAt str i = (if i < length str then [str ! i] else [])"

text \<open>
  \<^verbatim>\<open>xs.slice(start, fin)\<close> of arrays and strings, for integer arguments: a negative
  index counts from the end, and both indices are clamped to \<open>0 .. length\<close>.
\<close>

definition js_slice :: "int \<Rightarrow> int \<Rightarrow> 'a list \<Rightarrow> 'a list" where
  "js_slice start fin xs =
     (let len = int (length xs);
          k = (if start < 0 then max (len + start) 0 else min start len);
          final = (if fin < 0 then max (len + fin) 0 else min fin len)
      in take (nat (final - k)) (drop (nat k) xs))"

text \<open>\<^verbatim>\<open>xs.slice(start)\<close>: the end defaults to the length.\<close>

definition js_slice_from :: "int \<Rightarrow> 'a list \<Rightarrow> 'a list" where
  "js_slice_from start xs = js_slice start (int (length xs)) xs"

text \<open>\<^verbatim>\<open>xs[0]\<close>: \<open>None\<close> is JavaScript's \<^verbatim>\<open>undefined\<close>.\<close>

definition at0 :: "'a list \<Rightarrow> 'a option" where
  "at0 xs = (case xs of [] \<Rightarrow> None | x # _ \<Rightarrow> Some x)"

text \<open>A possibly undefined string inside a template literal.\<close>

definition template_str :: "string option \<Rightarrow> string" where
  "template_str v = (case v of None \<Rightarrow> ''undefined'' | Some s \<Rightarrow> s)"

text \<open>\<^verbatim>\<open>str.split(c)\<close> for a one-character separator: never the empty array.\<close>

fun js_split :: "char \<Rightarrow> string \<Rightarrow> string list" where
  "js_split sep [] = [[]]"
| "js_split sep (c # cs) =
     (if c = sep then [] # js_split sep cs
      else (case js_split sep cs of
              [] \<Rightarrow> [[c]]
            | s # ss \<Rightarrow> (c # s) # ss))"

text \<open>\<^verbatim>\<open>xs.join(sep)\<close> of an array of strings.\<close>

fun join :: "string \<Rightarrow> string list \<Rightarrow> string" where
  "join sep [] = []"
| "join sep [x] = x"
| "join sep (x # y # ys) = x @ sep @ join sep (y # ys)"

text \<open>\<^verbatim>\<open>str.padEnd(n)\<close> and \<^verbatim>\<open>str.repeat(n)\<close>.\<close>

definition padEnd :: "string \<Rightarrow> nat \<Rightarrow> string" where
  "padEnd str n = str @ replicate (n - length str) (CHR '' '')"

definition repeat :: "string \<Rightarrow> nat \<Rightarrow> string" where
  "repeat str n = concat (replicate n str)"

text \<open>\<^verbatim>\<open>str.includes(needle)\<close>.\<close>

fun js_includes :: "string \<Rightarrow> string \<Rightarrow> bool" where
  "js_includes [] needle = (needle = [])"
| "js_includes (c # cs) needle =
     (take (length needle) (c # cs) = needle \<or> js_includes cs needle)"

text \<open>The white space matched by \<^verbatim>\<open>\s\<close>, and \<^verbatim>\<open>str.replace(/\s+/g, by)\<close>: every
  maximal run of white space is replaced by one copy of \<open>by\<close>.\<close>

definition is_space :: "char \<Rightarrow> bool" where
  "is_space c = (c \<in> set [CHR 0x09, CHR 0x0A, CHR 0x0B, CHR 0x0C, CHR 0x0D, CHR '' ''])"

function replace_spaces :: "string \<Rightarrow> string \<Rightarrow> string" where
  "replace_spaces [] by = []"
| "replace_spaces (c # cs) by =
     (if is_space c then by @ replace_spaces (dropWhile is_space cs) by
      else c # replace_spaces cs by)"
  by pat_completeness auto
termination
  by (relation "measure (\<lambda>(str, by). length str)")
     (auto simp: le_imp_less_Suc length_dropWhile_le)

text \<open>
  A number inside a template literal (\<^verbatim>\<open>Number::toString\<close>), for integers: the decimal
  digits, with a minus sign when negative.
\<close>

definition digit_char :: "nat \<Rightarrow> char" where
  "digit_char d = char_of (48 + d)"

fun show_nat :: "nat \<Rightarrow> string" where
  "show_nat n =
     (if n < 10 then [digit_char n] else show_nat (n div 10) @ [digit_char (n mod 10)])"

definition show_int :: "int \<Rightarrow> string" where
  "show_int i = (if i < 0 then ''-'' @ show_nat (nat (- i)) else show_nat (nat i))"

text \<open>
  \<^verbatim>\<open>`${n / 10}`\<close> for an integer \<open>n\<close>: JavaScript divides as a double and prints the
  shortest decimal that reads back as the same double, which for \<open>n / 10\<close> is the integer
  part, followed by a point and one digit unless \<open>n\<close> is a multiple of ten.
\<close>

definition show_tenths :: "int \<Rightarrow> string" where
  "show_tenths n =
     (let a = nat \<bar>n\<bar> in
        (if n < 0 then ''-'' else '''') @ show_nat (a div 10) @
        (if a mod 10 = 0 then '''' else ''.'' @ [digit_char (a mod 10)]))"

text \<open>
  The number a decimal numeral denotes (an optional minus sign, digits, and an optional
  point followed by digits). It is not part of the program: it states what a rendered
  number is worth.
\<close>

definition digit_value :: "char \<Rightarrow> nat" where
  "digit_value c = (of_char c :: nat) - 48"

definition digits_value :: "string \<Rightarrow> nat" where
  "digits_value ds = foldl (\<lambda>a c. 10 * a + digit_value c) 0 ds"

definition unsigned_value :: "string \<Rightarrow> rat" where
  "unsigned_value s =
     (let ip = takeWhile (\<lambda>c. c \<noteq> CHR ''.'') s;
          fp = drop 1 (dropWhile (\<lambda>c. c \<noteq> CHR ''.'') s)
      in of_nat (digits_value ip) + of_nat (digits_value fp) / 10 ^ length fp)"

definition decimal_value :: "string \<Rightarrow> rat" where
  "decimal_value s =
     (case s of
        [] \<Rightarrow> 0
      | c # cs \<Rightarrow> (if c = CHR ''-'' then - unsigned_value cs else unsigned_value (c # cs)))"

text \<open>The helper of the multi-tool server; \<^verbatim>\<open>getPokemonInfo\<close> declares the same function
  locally.\<close>

definition capitalize :: "string \<Rightarrow> string" where
  "capitalize str = toUpperCase (charAt str 0) @ js_slice_from 1 str"


text \<open>The non-ASCII characters of the source's string literals, as UTF-8.\<close>

definition bullet :: string where
  "bullet = [CHR 0xE2, CHR 0x80, CHR 0xA2]"

definition e_acute :: string where
  "e_acute = [CHR 0xC3, CHR 0xA9]"

section \<open>The upstream API, thrown values and tool results\<close>

text \<open>
  \<^verbatim>\<open>fetch(url)\<close> either rejects (a network failure: an \<^verbatim>\<open>Error\<close> with a message) or
  resolves to a response with a status; \<^verbatim>\<open>response.json()\<close> either rejects (the body
  is not JSON: \<open>Inl\<close> of the message) or yields the parsed body. The upstream is a
  function of the URL: the same request gets the same answer during one invocation.
\<close>

datatype 'b response = Response (status: nat) (json_body: "string + 'b")

datatype 'b fetch_result = Rejects string | Resolves "'b response"

text \<open>\<^verbatim>\<open>response.ok\<close>: the status is in the range 200-299.\<close>

definition ok :: "'b response \<Rightarrow> bool" where
  "ok response = (200 \<le> status response \<and> status response \<le> 299)"

text \<open>
  A thrown value: an instance of \<^verbatim>\<open>Error\<close> with its message, or anything else.
  \<^verbatim>\<open>error instanceof Error ? error.message : "Unknown error occurred"\<close> is
  \<open>errorMessage\<close>.
\<close>

datatype thrown = Error string | NonError

definition errorMessage :: "thrown \<Rightarrow> string" where
  "errorMessage error = (case error of Error m \<Rightarrow> m | NonError \<Rightarrow> ''Unknown error occurred'')"

text \<open>
  The \<^verbatim>\<open>TypeError\<close> Node raises when a property of \<^verbatim>\<open>undefined\<close> is read.
\<close>

definition type_error :: "string \<Rightarrow> thrown" where
  "type_error property =
     Error (''Cannot read properties of undefined (reading '' @ [CHR 0x27] @ property @
            [CHR 0x27] @ '')'')"

text \<open>
  A tool result: \<^verbatim>\<open>{ content: [{ type: "text", text }], isError }\<close>. \<open>Text t\<close> is the
  content item \<^verbatim>\<open>{ type: "text", text: t }\<close>; a result without the \<^verbatim>\<open>isError\<close> field
  has \<open>isError = False\<close>.
\<close>

datatype content_item = Text string

record tool_result =
  content :: "content_item list"
  isError :: bool

definition success :: "string \<Rightarrow> tool_result" where
  "success t = \<lparr>content = [Text t], isError = False\<rparr>"

definition failure :: "string \<Rightarrow> tool_result" where
  "failure t = \<lparr>content = [Text t], isError = True\<rparr>"

text \<open>
  Every handler is \<^verbatim>\<open>try { ... return success } catch (error) { return failure }\<close> with
  its own prefix. A handler of the model returns the URLs it requested, in order, and
  the tool result.
\<close>

definition catch_all :: "string \<Rightarrow> thrown + string \<Rightarrow> tool_result" where
  "catch_all prefix r =
     (case r of
        Inr t \<Rightarrow> success t
      | Inl error \<Rightarrow> failure (prefix @ errorMessage error))"

section \<open>The single-tool server: \<^verbatim>\<open>src/server.ts\<close>\<close>

text \<open>A parsed JSON body, with integer numbers; an object is its list of members.\<close>

datatype json =
    JNull
  | JBool bool
  | JNum int
  | JStr string
  | JArr "json list"
  | JObj "(string \<times> json) list"

text \<open>
  \<^verbatim>\<open>PokemonSchema\<close>: an object with numbers \<open>id\<close>, \<open>height\<close>, \<open>weight\<close>, a string \<open>name\<close>
  and an array \<open>types\<close> of \<^verbatim>\<open>{ type: { name: string } }\<close>; other members are ignored. An
  element of \<open>p_types\<close> is the \<^verbatim>\<open>type.name\<close> of an element of \<open>types\<close>.
\<close>

record pokemon =
  p_id :: int
  p_name :: string
  p_height :: int
  p_weight :: int
  p_types :: "string list"

definition parse_type_slot :: "json \<Rightarrow> string option" where
  "parse_type_slot v =
     (case v of
        JObj slot \<Rightarrow>
          (case map_of slot ''type'' of
             Some (JObj t) \<Rightarrow>
               (case map_of t ''name'' of Some (JStr n) \<Rightarrow> Some n | _ \<Rightarrow> None)
           | _ \<Rightarrow> None)
      | _ \<Rightarrow> None)"

text \<open>\<^verbatim>\<open>PokemonSchema.parse(body)\<close>: \<open>None\<close> when it throws a \<^verbatim>\<open>ZodError\<close>.\<close>

definition PokemonSchema_parse :: "json \<Rightarrow> pokemon option" where
  "PokemonSchema_parse body =
     (case body of
        JObj members \<Rightarrow>
          (case (map_of members ''id'', map_of members ''name'', map_of members ''height'',
                 map_of members ''weight'', map_of members ''types'') of
             (Some (JNum i), Some (JStr n), Some (JNum h), Some (JNum w), Some (JArr ts)) \<Rightarrow>
               (case those (map parse_type_slot ts) of
                  Some names \<Rightarrow>
                    Some \<lparr>p_id = i, p_name = n, p_height = h, p_weight = w, p_types = names\<rparr>
                | None \<Rightarrow> None)
           | _ \<Rightarrow> None)
      | _ \<Rightarrow> None)"

text \<open>
  \<^verbatim>\<open>getPokemonInfo\<close>. The message of a \<^verbatim>\<open>ZodError\<close> is computed by the zod library from
  the rejected body: it is the parameter \<open>zod_message\<close>. The outer \<^verbatim>\<open>catch\<close> rethrows an
  \<^verbatim>\<open>Error\<close> as it is and replaces anything else.
\<close>

definition pokemon_info_text :: "pokemon \<Rightarrow> string" where
  "pokemon_info_text pokemon =
     (let types = join '', '' (map capitalize (p_types pokemon))
      in capitalize (p_name pokemon) @ '' (#'' @ show_int (p_id pokemon) @ '') - '' @ types @
         '' type, '' @ show_tenths (p_height pokemon) @ ''m tall, '' @
         show_tenths (p_weight pokemon) @ ''kg'')"

definition getPokemonInfo_try ::
  "(string \<Rightarrow> json fetch_result) \<Rightarrow> (json \<Rightarrow> string) \<Rightarrow> string \<Rightarrow> string list \<times> (thrown + string)"
where
  \<open>getPokemonInfo_try fetch zod_message name =
     (let pokemonName = replace_spaces (toLowerCase name) ''-'';
          url = ''https://pokeapi.co/api/v2/pokemon/'' @ pokemonName
      in ([url],
          (case fetch url of
             Rejects m \<Rightarrow> Inl (Error m)
           | Resolves response \<Rightarrow>
               if \<not> ok response then
                 (if status response = 404
                  then Inl (Error (''Pok'' @ e_acute @ ''mon "'' @ name @ ''" not found.''))
                  else Inl (Error (''Failed to fetch Pok'' @ e_acute @ ''mon data: '' @
                                   show_nat (status response))))
               else
                 (case json_body response of
                    Inl m \<Rightarrow> Inl (Error m)
                  | Inr body \<Rightarrow>
                      (case PokemonSchema_parse body of
                         None \<Rightarrow> Inl (Error (zod_message body))
                       | Some pokemon \<Rightarrow> Inr (pokemon_info_text pokemon))))))\<close>

definition getPokemonInfo ::
  "(string \<Rightarrow> json fetch_result) \<Rightarrow> (json \<Rightarrow> string) \<Rightarrow> string \<Rightarrow> string list \<times> (thrown + string)"
where
  "getPokemonInfo fetch zod_message name =
     (case getPokemonInfo_try fetch zod_message name of
        (requests, Inr t) \<Rightarrow> (requests, Inr t)
      | (requests, Inl error) \<Rightarrow>
          (requests,
           Inl (case error of
                  Error m \<Rightarrow> Error m
                | NonError \<Rightarrow> Error (''Error fetching Pok'' @ e_acute @ ''mon information''))))"

definition get_pokemon_pokedex_info ::
  "(string \<Rightarrow> json fetch_result) \<Rightarrow> (json \<Rightarrow> string) \<Rightarrow> string \<Rightarrow> string list \<times> tool_result"
where
  "get_pokemon_pokedex_info fetch zod_message name =
     (case getPokemonInfo fetch zod_message name of
        (requests, r) \<Rightarrow> (requests, catch_all ''Error getting pokemon info: '' r))"


section \<open>The multi-tool server: \<^verbatim>\<open>src/unnamed/part_000\<close>\<close>

text \<open>
  The multi-tool server reads the upstream bodies without validating them, at the types
  its annotations and accesses give them. A body is one of the five documents it reads:
  \<^item> a type document, \<^verbatim>\<open>{ pokemon: [{ pokemon: { name, url } }] }\<close>;
  \<^item> a generation document, \<^verbatim>\<open>{ pokemon_species: [{ name, url }] }\<close>;
  \<^item> a Pokemon document, \<^verbatim>\<open>{ name, id, types: [{ type: { name } }], stats: [{ base_stat }],
    species: { url } }\<close>, where an entry of \<open>stats\<close> may lack its \<open>base_stat\<close>;
  \<^item> a species document, \<^verbatim>\<open>{ evolution_chain: { url } }\<close>;
  \<^item> an evolution document, \<^verbatim>\<open>{ chain }\<close>, where a chain is
    \<^verbatim>\<open>{ species: { name }, evolves_to: [chain] }\<close>.
  A handler that is given another document than the one it reads finds \<^verbatim>\<open>undefined\<close>
  where it looks and throws a \<^verbatim>\<open>TypeError\<close>.
\<close>

text \<open>
  The values the comparison computes with: a number, \<^verbatim>\<open>undefined\<close> (the \<^verbatim>\<open>base_stat\<close> of
  an entry that has none) and \<^verbatim>\<open>NaN\<close>. \<open>js_add\<close> is \<^verbatim>\<open>+\<close> on them: a sum with
  \<^verbatim>\<open>undefined\<close> or \<^verbatim>\<open>NaN\<close> is \<^verbatim>\<open>NaN\<close>. \<open>template_value\<close> is such a value inside a
  template literal.
\<close>

datatype stat_value = Number int | NaN | Undefined

fun js_add :: "stat_value \<Rightarrow> stat_value \<Rightarrow> stat_value" where
  "js_add (Number a) (Number b) = Number (a + b)"
| "js_add a b = NaN"

definition template_value :: "stat_value \<Rightarrow> string" where
  "template_value v =
     (case v of Number n \<Rightarrow> show_int n | NaN \<Rightarrow> ''NaN'' | Undefined \<Rightarrow> ''undefined'')"

record named_ref =
  ref_name :: string
  ref_url :: string

record pokemon_data =
  data_name :: string
  data_id :: int
  data_types :: "string list"
  data_stats :: "stat_value list"
  species_url :: string

datatype chain = Chain (species_name: string) (evolves_to: "chain list")

datatype body =
    TypeData "named_ref list"
  | GenerationData "named_ref list"
  | PokemonData pokemon_data
  | SpeciesData string
  | EvolutionData chain

text \<open>\<^verbatim>\<open>handleApiError\<close> always throws: the model returns what it throws.\<close>

definition handleApiError :: "'b response \<Rightarrow> string \<Rightarrow> thrown" where
  "handleApiError response ctxt =
     (if status response = 404 then Error (ctxt @ '' not found.'')
      else Error (''Failed to fetch '' @ ctxt @ '': '' @ show_nat (status response)))"

text \<open>
  The three statements every request of the multi-tool server consists of:
  \<^verbatim>\<open>fetch(url)\<close>, \<^verbatim>\<open>if (!response.ok) await handleApiError(response, ctxt)\<close> and
  \<^verbatim>\<open>await response.json()\<close>.
\<close>

definition get_json :: "(string \<Rightarrow> 'b fetch_result) \<Rightarrow> string \<Rightarrow> string \<Rightarrow> thrown + 'b" where
  "get_json fetch url ctxt =
     (case fetch url of
        Rejects m \<Rightarrow> Inl (Error m)
      | Resolves response \<Rightarrow>
          if \<not> ok response then Inl (handleApiError response ctxt)
          else (case json_body response of
                  Inl m \<Rightarrow> Inl (Error m)
                | Inr b \<Rightarrow> Inr b))"

subsection \<open>Tools 1 and 2: search by type and by generation\<close>

text \<open>\<^verbatim>\<open>url.split('/').slice(-2, -1)[0]\<close>: the id of a listing entry.\<close>

definition url_id :: "string \<Rightarrow> string option" where
  "url_id url = at0 (js_slice (- 2) (- 1) (js_split (CHR ''/'') url))"

text \<open>An entry \<^verbatim>\<open>{ name, id }\<close> of the listing, and its line.\<close>

definition list_entry :: "named_ref \<Rightarrow> string \<times> string option" where
  "list_entry p = (capitalize (ref_name p), url_id (ref_url p))"

definition entry_line :: "string \<times> string option \<Rightarrow> string" where
  "entry_line p = bullet @ '' '' @ fst p @ '' (#'' @ template_str (snd p) @ '')''"

definition search_pokemon_by_type_try ::
  "(string \<Rightarrow> body fetch_result) \<Rightarrow> string \<Rightarrow> int \<Rightarrow> string list \<times> (thrown + string)"
where
  \<open>search_pokemon_by_type_try fetch type limit =
     (let url = ''https://pokeapi.co/api/v2/type/'' @ toLowerCase type
      in ([url],
          (case get_json fetch url (''Type "'' @ type @ ''"'') of
             Inl error \<Rightarrow> Inl error
           | Inr typeData \<Rightarrow>
               (case typeData of
                  TypeData members \<Rightarrow>
                    (let pokemon = map list_entry (js_slice 0 limit members);
                         pokemonList = join ''\<newline>'' (map entry_line pokemon)
                     in Inr (''Found '' @ show_nat (length pokemon) @ '' '' @ capitalize type @
                             '' type Pokemon:\<newline>\<newline>'' @ pokemonList))
                | _ \<Rightarrow> Inl (type_error ''slice'')))))\<close>

text \<open>The parameter \<^verbatim>\<open>limit = 20\<close>: an absent limit is 20.\<close>

definition search_pokemon_by_type ::
  "(string \<Rightarrow> body fetch_result) \<Rightarrow> string \<Rightarrow> int option \<Rightarrow> string list \<times> tool_result"
where
  "search_pokemon_by_type fetch type limit =
     (case search_pokemon_by_type_try fetch type (case limit of None \<Rightarrow> 20 | Some l \<Rightarrow> l) of
        (requests, r) \<Rightarrow> (requests, catch_all ''Error searching Pokemon by type: '' r))"

definition search_pokemon_by_generation_try ::
  "(string \<Rightarrow> body fetch_result) \<Rightarrow> int \<Rightarrow> int \<Rightarrow> string list \<times> (thrown + string)"
where
  "search_pokemon_by_generation_try fetch generation limit =
     (let url = ''https://pokeapi.co/api/v2/generation/'' @ show_int generation
      in ([url],
          (case get_json fetch url (''Generation '' @ show_int generation) of
             Inl error \<Rightarrow> Inl error
           | Inr genData \<Rightarrow>
               (case genData of
                  GenerationData members \<Rightarrow>
                    (let pokemon = map list_entry (js_slice 0 limit members);
                         pokemonList = join ''\<newline>'' (map entry_line pokemon)
                     in Inr (''Found '' @ show_nat (length pokemon) @ '' Pokemon from Generation '' @
                             show_int generation @ '':\<newline>\<newline>'' @ pokemonList))
                | _ \<Rightarrow> Inl (type_error ''slice'')))))"

definition search_pokemon_by_generation ::
  "(string \<Rightarrow> body fetch_result) \<Rightarrow> int \<Rightarrow> int option \<Rightarrow> string list \<times> tool_result"
where
  "search_pokemon_by_generation fetch generation limit =
     (case search_pokemon_by_generation_try fetch generation
             (case limit of None \<Rightarrow> 20 | Some l \<Rightarrow> l) of
        (requests, r) \<Rightarrow> (requests, catch_all ''Error searching Pokemon by generation: '' r))"

subsection \<open>Tool 3: the evolution chain\<close>

text \<open>
  \<^verbatim>\<open>parseEvolutionChain\<close>: the loop \<^verbatim>\<open>for (const evolution of chain.evolves_to)
  result = result.concat(...)\<close> is the \<open>foldl\<close>.
\<close>

fun parseEvolutionChain :: "chain \<Rightarrow> nat \<Rightarrow> string list" where
  "parseEvolutionChain (Chain species evolutions) level =
     (let indent = repeat ''  '' level;
          pokemonName = capitalize species;
          result = [indent @ bullet @ '' '' @ pokemonName]
      in if length evolutions > 0
         then foldl (\<lambda>result evolution. result @ parseEvolutionChain evolution (level + 1))
                result evolutions
         else result)"

definition get_pokemon_evolution_chain_try ::
  "(string \<Rightarrow> body fetch_result) \<Rightarrow> string \<Rightarrow> string list \<times> (thrown + string)"
where
  \<open>get_pokemon_evolution_chain_try fetch name =
     (let url1 = ''https://pokeapi.co/api/v2/pokemon/'' @ toLowerCase name in
      case get_json fetch url1 (''Pokemon "'' @ name @ ''"'') of
        Inl error \<Rightarrow> ([url1], Inl error)
      | Inr pokemon \<Rightarrow>
          (case pokemon of
             PokemonData p \<Rightarrow>
               (let url2 = species_url p in
                case get_json fetch url2 (''Species for "'' @ name @ ''"'') of
                  Inl error \<Rightarrow> ([url1, url2], Inl error)
                | Inr species \<Rightarrow>
                    (case species of
                       SpeciesData url3 \<Rightarrow>
                         (case get_json fetch url3 (''Evolution chain for "'' @ name @ ''"'') of
                            Inl error \<Rightarrow> ([url1, url2, url3], Inl error)
                          | Inr evolutionChain \<Rightarrow>
                              (case evolutionChain of
                                 EvolutionData ch \<Rightarrow>
                                   (let evolutionTree = join ''\<newline>'' (parseEvolutionChain ch 0)
                                    in ([url1, url2, url3],
                                        Inr (''Evolution chain for '' @ capitalize name @
                                             '':\<newline>\<newline>'' @ evolutionTree)))
                               | _ \<Rightarrow> ([url1, url2, url3], Inl (type_error ''species''))))
                     | _ \<Rightarrow> ([url1, url2], Inl (type_error ''url''))))
           | _ \<Rightarrow> ([url1], Inl (type_error ''url''))))\<close>

definition get_pokemon_evolution_chain ::
  "(string \<Rightarrow> body fetch_result) \<Rightarrow> string \<Rightarrow> string list \<times> tool_result"
where
  "get_pokemon_evolution_chain fetch name =
     (case get_pokemon_evolution_chain_try fetch name of
        (requests, r) \<Rightarrow> (requests, catch_all ''Error getting evolution chain: '' r))"

subsection \<open>Tool 4: the comparison\<close>

record stats =
  hp :: stat_value
  attack :: stat_value
  defense :: stat_value
  specialAttack :: stat_value
  specialDefense :: stat_value
  speed :: stat_value

record row =
  row_name :: string
  row_id :: int
  row_types :: string
  row_stats :: stats
  total :: stat_value

text \<open>
  The object pushed on \<^verbatim>\<open>pokemonData\<close> is \<open>row_of\<close>; its total is the \<^verbatim>\<open>reduce\<close> over
  the whole array, from 0. \<^verbatim>\<open>data.stats[i].base_stat\<close> throws a \<^verbatim>\<open>TypeError\<close> when the
  array has no element \<open>i\<close>, for one of \<open>i = 0 .. 5\<close>: \<open>make_row\<close> evaluates \<open>row_of\<close> only
  when all six exist. An element without a \<^verbatim>\<open>base_stat\<close> throws nothing: its column is
  \<^verbatim>\<open>undefined\<close>.
\<close>

definition row_of :: "pokemon_data \<Rightarrow> row" where
  "row_of d =
     \<lparr>row_name = capitalize (data_name d),
      row_id = data_id d,
      row_types = join '', '' (map capitalize (data_types d)),
      row_stats = \<lparr>hp = data_stats d ! 0,
                    attack = data_stats d ! 1,
                    defense = data_stats d ! 2,
                    specialAttack = data_stats d ! 3,
                    specialDefense = data_stats d ! 4,
                    speed = data_stats d ! 5\<rparr>,
      total = foldl (\<lambda>sum stat. js_add sum stat) (Number 0) (data_stats d)\<rparr>"

definition make_row :: "body \<Rightarrow> thrown + row" where
  "make_row data =
     (case data of
        PokemonData d \<Rightarrow>
          if length (data_stats d) < 6 then Inl (type_error ''base_stat'')
          else Inr (row_of d)
      | _ \<Rightarrow> Inl (type_error ''charAt''))"

text \<open>
  The loop \<^verbatim>\<open>for (const name of pokemon)\<close>: \<open>pokemonData\<close> are the rows pushed so far,
  \<open>requests\<close> the URLs requested so far. The first failure ends it.
\<close>

fun fetch_rows ::
  "(string \<Rightarrow> body fetch_result) \<Rightarrow> string list \<Rightarrow> row list \<Rightarrow> string list \<Rightarrow>
   string list \<times> (thrown + row list)"
where
  \<open>fetch_rows fetch [] pokemonData requests = (requests, Inr pokemonData)\<close>
| \<open>fetch_rows fetch (name # names) pokemonData requests =
     (let url = ''https://pokeapi.co/api/v2/pokemon/'' @ toLowerCase name in
      case get_json fetch url (''Pokemon "'' @ name @ ''"'') of
        Inl error \<Rightarrow> (requests @ [url], Inl error)
      | Inr data \<Rightarrow>
          (case make_row data of
             Inl error \<Rightarrow> (requests @ [url], Inl error)
           | Inr r \<Rightarrow> fetch_rows fetch names (pokemonData @ [r]) (requests @ [url])))\<close>

definition table_header :: string where
  "table_header =
     ''Pokemon Comparison:\<newline>\<newline>'' @
     padEnd ''Name'' 15 @ padEnd ''Type'' 20 @ padEnd ''HP'' 5 @ padEnd ''ATK'' 5 @
     padEnd ''DEF'' 5 @ padEnd ''SPA'' 5 @ padEnd ''SPD'' 5 @ padEnd ''SPE'' 5 @ ''Total\<newline>'' @
     repeat ''-'' 80 @ ''\<newline>''"

definition table_row :: "row \<Rightarrow> string" where
  "table_row p =
     padEnd (row_name p) 15 @ padEnd (row_types p) 20 @
     padEnd (template_value (hp (row_stats p))) 5 @
     padEnd (template_value (attack (row_stats p))) 5 @
     padEnd (template_value (defense (row_stats p))) 5 @
     padEnd (template_value (specialAttack (row_stats p))) 5 @
     padEnd (template_value (specialDefense (row_stats p))) 5 @
     padEnd (template_value (speed (row_stats p))) 5 @
     template_value (total p) @ ''\<newline>''"

text \<open>The loop \<^verbatim>\<open>for (const p of pokemonData) comparison += ...\<close>.\<close>

definition render_table :: "row list \<Rightarrow> string" where
  "render_table pokemonData =
     foldl (\<lambda>comparison p. comparison @ table_row p) table_header pokemonData"

definition compare_pokemon_try ::
  "(string \<Rightarrow> body fetch_result) \<Rightarrow> string list \<Rightarrow> string list \<times> (thrown + string)"
where
  "compare_pokemon_try fetch names =
     (case fetch_rows fetch names [] [] of
        (requests, Inl error) \<Rightarrow> (requests, Inl error)
      | (requests, Inr pokemonData) \<Rightarrow> (requests, Inr (render_table pokemonData)))"

definition compare_pokemon ::
  "(string \<Rightarrow> body fetch_result) \<Rightarrow> string list \<Rightarrow> string list \<times> tool_result"
where
  "compare_pokemon fetch names =
     (case compare_pokemon_try fetch names of
        (requests, r) \<Rightarrow> (requests, catch_all ''Error comparing Pokemon: '' r))"


section \<open>Notions the properties are stated with\<close>

text \<open>A string of ASCII characters: the strings on which the model's case conversions and
  white space are those of JavaScript.\<close>

definition ascii :: "string \<Rightarrow> bool" where
  "ascii str = list_all (\<lambda>c. (of_char c :: nat) < 128) str"

text \<open>A name that normalization has nothing to do on: ASCII characters, no upper-case
  letter, no white space.\<close>

definition normalized :: "string \<Rightarrow> bool" where
  "normalized str = (ascii str \<and> list_all (\<lambda>c. \<not> is_upper c \<and> \<not> is_space c) str)"


text \<open>
  The depth-first pre-order listing of a chain: every node with its depth, a node before
  its children, the children in their order and each with its whole subtree before the
  next; and the line of a node at a depth.
\<close>

fun preorder :: "chain \<Rightarrow> nat \<Rightarrow> (nat \<times> string) list" where
  "preorder (Chain species evolutions) d =
     (d, species) # concat (map (\<lambda>e. preorder e (d + 1)) evolutions)"

definition tree_line :: "nat \<times> string \<Rightarrow> string" where
  "tree_line n = replicate (2 * fst n) (CHR '' '') @ bullet @ '' '' @ capitalize (snd n)"

text \<open>
  The number of entries \<^verbatim>\<open>slice(0, limit)\<close> keeps of \<open>n\<close>: at most \<open>limit\<close> when the limit
  is not negative, all but the last \<open>- limit\<close> otherwise.
\<close>

definition prefix_length :: "int \<Rightarrow> nat \<Rightarrow> nat" where
  "prefix_length limit n = (if 0 \<le> limit then min (nat limit) n else n - nat (- limit))"

text \<open>A request that failed: rejected, answered with a status outside 200-299, or
  answered with a body that is not JSON.\<close>

definition failed :: "(string \<Rightarrow> 'b fetch_result) \<Rightarrow> string \<Rightarrow> bool" where
  "failed fetch url =
     (case fetch url of
        Rejects m \<Rightarrow> True
      | Resolves response \<Rightarrow> \<not> ok response \<or> isl (json_body response))"


text \<open>The text of a result with one text item.\<close>

definition text_of :: "tool_result \<Rightarrow> string" where
  "text_of r = (case content r of [Text t] \<Rightarrow> t | _ \<Rightarrow> [])"

section \<open>Concrete upstreams\<close>

text \<open>An upstream that cannot be reached, and a zod message.\<close>

definition offline :: "string \<Rightarrow> 'b fetch_result" where
  "offline url = Rejects ''fetch failed''"

definition invalid_input :: "json \<Rightarrow> string" where
  "invalid_input b = ''Invalid input''"


text \<open>An upstream that answers every request with the JSON document of Pikachu.\<close>

definition pikachu_json :: json where
  "pikachu_json =
     JObj [(''id'', JNum 25), (''name'', JStr ''pikachu''), (''base_experience'', JNum 112),
           (''height'', JNum 4), (''weight'', JNum 60),
           (''types'', JArr [JObj [(''slot'', JNum 1),
                                   (''type'', JObj [(''name'', JStr ''electric'')])]])]"

definition pikachu_only :: "string \<Rightarrow> json fetch_result" where
  "pikachu_only url = Resolves (Response 200 (Inr pikachu_json))"

text \<open>A small upstream for the multi-tool server: two Pokemon, one type, one generation,
  one species and its evolution chain; anything else is not found.\<close>

definition pikachu_data :: pokemon_data where
  "pikachu_data =
     \<lparr>data_name = ''pikachu'', data_id = 25, data_types = [''electric''],
      data_stats = map Number [35, 55, 40, 50, 50, 90],
      species_url = ''https://pokeapi.co/api/v2/pokemon-species/25/''\<rparr>"

definition raichu_data :: pokemon_data where
  "raichu_data =
     \<lparr>data_name = ''raichu'', data_id = 26, data_types = [''electric''],
      data_stats = map Number [60, 90, 55, 90, 80, 110],
      species_url = ''https://pokeapi.co/api/v2/pokemon-species/26/''\<rparr>"

definition fire_members :: "named_ref list" where
  "fire_members =
     [\<lparr>ref_name = ''charmander'', ref_url = ''https://pokeapi.co/api/v2/pokemon/4/''\<rparr>,
      \<lparr>ref_name = ''charmeleon'', ref_url = ''https://pokeapi.co/api/v2/pokemon/5/''\<rparr>,
      \<lparr>ref_name = ''charizard'', ref_url = ''https://pokeapi.co/api/v2/pokemon/6/''\<rparr>]"

definition pichu_chain :: chain where
  "pichu_chain = Chain ''pichu'' [Chain ''pikachu'' [Chain ''raichu'' []]]"

definition small_upstream :: "string \<Rightarrow> body fetch_result" where
  "small_upstream url =
     (if url = ''https://pokeapi.co/api/v2/pokemon/pikachu''
      then Resolves (Response 200 (Inr (PokemonData pikachu_data)))
      else if url = ''https://pokeapi.co/api/v2/pokemon/raichu''
      then Resolves (Response 200 (Inr (PokemonData raichu_data)))
      else if url = ''https://pokeapi.co/api/v2/type/fire''
      then Resolves (Response 200 (Inr (TypeData fire_members)))
      else if url = ''https://pokeapi.co/api/v2/generation/1''
      then Resolves (Response 200 (Inr (GenerationData fire_members)))
      else if url = ''https://pokeapi.co/api/v2/pokemon-species/25/''
      then Resolves (Response 200 (Inr (SpeciesData ''https://pokeapi.co/api/v2/evolution-chain/10/'')))
      else if url = ''https://pokeapi.co/api/v2/evolution-chain/10/''
      then Resolves (Response 200 (Inr (EvolutionData pichu_chain)))
      else Resolves (Response 404 (Inl ''Unexpected token N in JSON at position 0'')))"

text \<open>The Pokemon documents of the small upstream, by requested name.\<close>

definition small_docs :: "string \<Rightarrow> pokemon_data" where
  "small_docs name = (if toLowerCase name = ''pikachu'' then pikachu_data else raichu_data)"

text \<open>An upstream that answers every request with the JSON document of Onix, which has two
  types.\<close>

definition onix_json :: json where
  "onix_json =
     JObj [(''id'', JNum 95), (''name'', JStr ''onix''), (''height'', JNum 88),
           (''weight'', JNum 2100),
           (''types'', JArr [JObj [(''slot'', JNum 1), (''type'', JObj [(''name'', JStr ''rock'')])],
                             JObj [(''slot'', JNum 2),
                                   (''type'', JObj [(''name'', JStr ''ground'')])]])]"

definition onix_only :: "string \<Rightarrow> json fetch_result" where
  "onix_only url = Resolves (Response 200 (Inr onix_json))"





text \<open>The base stats of the Pokemon of the small upstream, by requested name.\<close>

definition small_base_stats :: "string \<Rightarrow> int list" where
  "small_base_stats name =
     (if toLowerCase name = ''pikachu'' then [35, 55, 40, 50, 50, 90]
      else [60, 90, 55, 90, 80, 110])"



section \<open>The id of a listing entry\<close>








section \<open>Requests, thrown values and the catch-all of the handlers\<close>

declare show_nat.simps [simp del]

lemma show_nat_0: "show_nat 0 = ''0''"
  by code_simp

lemma get_json_Rejects: "fetch url = Rejects m \<Longrightarrow> get_json fetch url c = Inl (Error m)"
  by (simp add: get_json_def)


lemma get_json_Inr: "get_json fetch url c = Inr b \<Longrightarrow> \<not> failed fetch url"
  by (auto simp: get_json_def failed_def split: fetch_result.splits sum.splits if_splits)

lemma failed_Rejects: "fetch url = Rejects m \<Longrightarrow> failed fetch url"
  by (simp add: failed_def)

lemma catch_all_Inl: "catch_all prefix (Inl (Error m)) = failure (prefix @ m)"
  by (simp add: catch_all_def errorMessage_def)

lemma catch_all_Inr: "catch_all prefix (Inr t) = success t"
  by (simp add: catch_all_def)


lemma catch_all_single: "length (content (catch_all prefix r)) = 1"
  by (cases r) (auto simp: catch_all_def success_def failure_def)

subsection \<open>The single-tool server\<close>

lemma getPokemonInfo_try_fst:
  "fst (getPokemonInfo_try fetch zm name)
     = [''https://pokeapi.co/api/v2/pokemon/'' @ replace_spaces (toLowerCase name) ''-'']"
  by (simp add: getPokemonInfo_try_def Let_def)

lemma getPokemonInfo_fst: "fst (getPokemonInfo fetch zm name) = fst (getPokemonInfo_try fetch zm name)"
  by (simp add: getPokemonInfo_def split: prod.splits sum.splits)

lemma getPokemonInfo_snd:
  "snd (getPokemonInfo fetch zm name)
     = (case snd (getPokemonInfo_try fetch zm name) of
          Inr t \<Rightarrow> Inr t
        | Inl error \<Rightarrow>
            Inl (case error of
                   Error m \<Rightarrow> Error m
                 | NonError \<Rightarrow> Error (''Error fetching Pok'' @ e_acute @ ''mon information'')))"
  by (simp add: getPokemonInfo_def split: prod.splits sum.splits)

lemma info_fst: "fst (get_pokemon_pokedex_info fetch zm name) = fst (getPokemonInfo fetch zm name)"
  by (simp add: get_pokemon_pokedex_info_def split: prod.splits)

lemma info_snd:
  "snd (get_pokemon_pokedex_info fetch zm name)
     = catch_all ''Error getting pokemon info: '' (snd (getPokemonInfo fetch zm name))"
  by (simp add: get_pokemon_pokedex_info_def split: prod.splits)

lemma info_requests:
  "fst (get_pokemon_pokedex_info fetch zm name)
     = [''https://pokeapi.co/api/v2/pokemon/'' @ replace_spaces (toLowerCase name) ''-'']"
  by (simp add: info_fst getPokemonInfo_fst getPokemonInfo_try_fst)

lemma getPokemonInfo_try_Rejects:
  "fetch (''https://pokeapi.co/api/v2/pokemon/'' @ replace_spaces (toLowerCase name) ''-'') = Rejects m
   \<Longrightarrow> snd (getPokemonInfo_try fetch zm name) = Inl (Error m)"
  by (simp add: getPokemonInfo_try_def Let_def)


lemma getPokemonInfo_try_ok:
  assumes "fetch (''https://pokeapi.co/api/v2/pokemon/'' @ replace_spaces (toLowerCase name) ''-'') = Resolves r"
    and "ok r" and "json_body r = Inr b"
  shows "snd (getPokemonInfo_try fetch zm name)
     = (case PokemonSchema_parse b of
          None \<Rightarrow> Inl (Error (zm b))
        | Some pokemon \<Rightarrow> Inr (pokemon_info_text pokemon))"
  using assms by (simp add: getPokemonInfo_try_def Let_def)

lemma info_rejected:
  assumes "u \<in> set (fst (get_pokemon_pokedex_info fetch zm name))" and "fetch u = Rejects m"
  shows "snd (get_pokemon_pokedex_info fetch zm name) = failure (''Error getting pokemon info: '' @ m)"
proof -
  have "snd (getPokemonInfo_try fetch zm name) = Inl (Error m)"
    using assms getPokemonInfo_try_Rejects [of fetch name m zm] by (simp add: info_requests)
  then show ?thesis
    by (simp add: info_snd getPokemonInfo_snd catch_all_Inl)
qed


lemma info_invalid:
  assumes "fetch (''https://pokeapi.co/api/v2/pokemon/'' @ replace_spaces (toLowerCase name) ''-'') = Resolves r"
    and "ok r" and "json_body r = Inr b" and "PokemonSchema_parse b = None"
  shows "snd (get_pokemon_pokedex_info fetch zm name) = failure (''Error getting pokemon info: '' @ zm b)"
  using getPokemonInfo_try_ok [of fetch name r b zm] assms
  by (simp add: info_snd getPokemonInfo_snd catch_all_Inl)

lemma info_valid:
  assumes "fetch (''https://pokeapi.co/api/v2/pokemon/'' @ replace_spaces (toLowerCase name) ''-'') = Resolves r"
    and "ok r" and "json_body r = Inr b" and "PokemonSchema_parse b = Some p"
  shows "snd (get_pokemon_pokedex_info fetch zm name) = success (pokemon_info_text p)"
  using getPokemonInfo_try_ok [of fetch name r b zm] assms
  by (simp add: info_snd getPokemonInfo_snd catch_all_Inr)

lemma info_single: "length (content (snd (get_pokemon_pokedex_info fetch zm name))) = 1"
  by (simp add: info_snd catch_all_single)

subsection \<open>The two searches\<close>

lemma type_fst:
  "fst (search_pokemon_by_type fetch type limit) = [''https://pokeapi.co/api/v2/type/'' @ toLowerCase type]"
  by (simp add: search_pokemon_by_type_def search_pokemon_by_type_try_def Let_def split: prod.splits)

lemma type_snd:
  "snd (search_pokemon_by_type fetch type limit)
     = catch_all ''Error searching Pokemon by type: ''
         (snd (search_pokemon_by_type_try fetch type (case limit of None \<Rightarrow> 20 | Some l \<Rightarrow> l)))"
  by (simp add: search_pokemon_by_type_def split: prod.splits)

lemma type_try_Inl:
  "get_json fetch (''https://pokeapi.co/api/v2/type/'' @ toLowerCase type)
      (''Type '' @ [CHR 0x22] @ type @ [CHR 0x22]) = Inl e
   \<Longrightarrow> snd (search_pokemon_by_type_try fetch type limit) = Inl e"
  by (simp add: search_pokemon_by_type_try_def Let_def)

lemma type_rejected:
  assumes "u \<in> set (fst (search_pokemon_by_type fetch type limit))" and "fetch u = Rejects m"
  shows "snd (search_pokemon_by_type fetch type limit) = failure (''Error searching Pokemon by type: '' @ m)"
  using assms type_try_Inl [OF get_json_Rejects, of fetch type m]
  by (simp add: type_fst type_snd catch_all_Inl)


lemma type_single: "length (content (snd (search_pokemon_by_type fetch type limit))) = 1"
  by (simp add: type_snd catch_all_single)

lemma generation_fst:
  "fst (search_pokemon_by_generation fetch g limit) = [''https://pokeapi.co/api/v2/generation/'' @ show_int g]"
  by (simp add: search_pokemon_by_generation_def search_pokemon_by_generation_try_def Let_def split: prod.splits)

lemma generation_snd:
  "snd (search_pokemon_by_generation fetch g limit)
     = catch_all ''Error searching Pokemon by generation: ''
         (snd (search_pokemon_by_generation_try fetch g (case limit of None \<Rightarrow> 20 | Some l \<Rightarrow> l)))"
  by (simp add: search_pokemon_by_generation_def split: prod.splits)

lemma generation_try_Inl:
  "get_json fetch (''https://pokeapi.co/api/v2/generation/'' @ show_int g)
      (''Generation '' @ show_int g) = Inl e
   \<Longrightarrow> snd (search_pokemon_by_generation_try fetch g limit) = Inl e"
  by (simp add: search_pokemon_by_generation_try_def Let_def)

lemma generation_rejected:
  assumes "u \<in> set (fst (search_pokemon_by_generation fetch g limit))" and "fetch u = Rejects m"
  shows "snd (search_pokemon_by_generation fetch g limit) = failure (''Error searching Pokemon by generation: '' @ m)"
  using assms generation_try_Inl [OF get_json_Rejects, of fetch g m]
  by (simp add: generation_fst generation_snd catch_all_Inl)


lemma generation_single: "length (content (snd (search_pokemon_by_generation fetch g limit))) = 1"
  by (simp add: generation_snd catch_all_single)

section \<open>The evolution-chain tool and the comparison abort at the first failure\<close>

lemma get_json_Inl_cases:
  assumes "get_json fetch url c = Inl e" and "failed fetch u" and "u = url"
  shows "\<forall>m. fetch u = Rejects m \<longrightarrow> e = Error m"
  using assms by (auto simp: get_json_def)

lemma evolution_try_outcome:
  assumes "u \<in> set (fst (get_pokemon_evolution_chain_try fetch name))" and "failed fetch u"
  shows "isl (snd (get_pokemon_evolution_chain_try fetch name))
       \<and> (\<forall>m. fetch u = Rejects m \<longrightarrow> snd (get_pokemon_evolution_chain_try fetch name) = Inl (Error m))"
proof -
  define u1 where "u1 = ''https://pokeapi.co/api/v2/pokemon/'' @ toLowerCase name"
  define c1 where \<open>c1 = ''Pokemon "'' @ name @ ''"''\<close>
  define c2 where \<open>c2 = ''Species for "'' @ name @ ''"''\<close>
  define c3 where \<open>c3 = ''Evolution chain for "'' @ name @ ''"''\<close>
  define T where "T = get_pokemon_evolution_chain_try fetch name"
  have T: "T = (case get_json fetch u1 c1 of
        Inl error \<Rightarrow> ([u1], Inl error)
      | Inr pokemon \<Rightarrow>
          (case pokemon of
             PokemonData p \<Rightarrow>
               (case get_json fetch (species_url p) c2 of
                  Inl error \<Rightarrow> ([u1, species_url p], Inl error)
                | Inr species \<Rightarrow>
                    (case species of
                       SpeciesData url3 \<Rightarrow>
                         (case get_json fetch url3 c3 of
                            Inl error \<Rightarrow> ([u1, species_url p, url3], Inl error)
                          | Inr evolutionChain \<Rightarrow>
                              (case evolutionChain of
                                 EvolutionData ch \<Rightarrow>
                                   ([u1, species_url p, url3],
                                        Inr (''Evolution chain for '' @ capitalize name @
                                             '':\<newline>\<newline>'' @ join ''\<newline>'' (parseEvolutionChain ch 0)))
                               | _ \<Rightarrow> ([u1, species_url p, url3], Inl (type_error ''species''))))
                     | _ \<Rightarrow> ([u1, species_url p], Inl (type_error ''url''))))
           | _ \<Rightarrow> ([u1], Inl (type_error ''url''))))"
    unfolding T_def get_pokemon_evolution_chain_try_def u1_def c1_def c2_def c3_def Let_def
    by (rule refl)
  have mem: "u \<in> set (fst T)" using assms(1) by (simp add: T_def)
  have goal: "isl (snd T) \<and> (\<forall>m. fetch u = Rejects m \<longrightarrow> snd T = Inl (Error m))"
  proof (cases "get_json fetch u1 c1")
    case (Inl e)
    then have "T = ([u1], Inl e)" by (simp add: T)
    then show ?thesis using mem get_json_Inl_cases [OF Inl assms(2)] by auto
  next
    case j1: (Inr pokemon)
    have g1: "\<not> failed fetch u1" using get_json_Inr [OF j1] .
    show ?thesis
    proof (cases pokemon)
      case (PokemonData p)
      show ?thesis
      proof (cases "get_json fetch (species_url p) c2")
        case (Inl e)
        then have "T = ([u1, species_url p], Inl e)" by (simp add: T j1 PokemonData)
        then show ?thesis using mem g1 assms(2) get_json_Inl_cases [OF Inl assms(2)] by auto
      next
        case j2: (Inr species)
        have g2: "\<not> failed fetch (species_url p)" using get_json_Inr [OF j2] .
        show ?thesis
        proof (cases species)
          case (SpeciesData url3)
          show ?thesis
          proof (cases "get_json fetch url3 c3")
            case (Inl e)
            then have "T = ([u1, species_url p, url3], Inl e)"
              by (simp add: T j1 PokemonData j2 SpeciesData)
            then show ?thesis
              using mem g1 g2 assms(2) get_json_Inl_cases [OF Inl assms(2)] by auto
          next
            case j3: (Inr evolutionChain)
            have g3: "\<not> failed fetch url3" using get_json_Inr [OF j3] .
            have "fst T = [u1, species_url p, url3]"
              by (cases evolutionChain) (simp_all add: T j1 PokemonData j2 SpeciesData j3)
            then show ?thesis using mem g1 g2 g3 assms(2) by auto
          qed
        next
          case (TypeData x)
          then have "fst T = [u1, species_url p]" by (simp add: T j1 PokemonData j2)
          then show ?thesis using mem g1 g2 assms(2) by auto
        next
          case (GenerationData x)
          then have "fst T = [u1, species_url p]" by (simp add: T j1 PokemonData j2)
          then show ?thesis using mem g1 g2 assms(2) by auto
        next
          case (PokemonData x)
          then have "fst T = [u1, species_url p]" by (simp add: T j1 \<open>pokemon = PokemonData p\<close> j2)
          then show ?thesis using mem g1 g2 assms(2) by auto
        next
          case (EvolutionData x)
          then have "fst T = [u1, species_url p]" by (simp add: T j1 PokemonData j2)
          then show ?thesis using mem g1 g2 assms(2) by auto
        qed
      qed
    next
      case (TypeData x)
      then have "fst T = [u1]" by (simp add: T j1)
      then show ?thesis using mem g1 assms(2) by auto
    next
      case (GenerationData x)
      then have "fst T = [u1]" by (simp add: T j1)
      then show ?thesis using mem g1 assms(2) by auto
    next
      case (SpeciesData x)
      then have "fst T = [u1]" by (simp add: T j1)
      then show ?thesis using mem g1 assms(2) by auto
    next
      case (EvolutionData x)
      then have "fst T = [u1]" by (simp add: T j1)
      then show ?thesis using mem g1 assms(2) by auto
    qed
  qed
  then show ?thesis by (simp add: T_def)
qed

lemma evolution_fst:
  "fst (get_pokemon_evolution_chain fetch name) = fst (get_pokemon_evolution_chain_try fetch name)"
  by (simp add: get_pokemon_evolution_chain_def split: prod.splits)

lemma evolution_snd:
  "snd (get_pokemon_evolution_chain fetch name)
     = catch_all ''Error getting evolution chain: '' (snd (get_pokemon_evolution_chain_try fetch name))"
  by (simp add: get_pokemon_evolution_chain_def split: prod.splits)

lemma evolution_rejected:
  assumes "u \<in> set (fst (get_pokemon_evolution_chain fetch name))" and "fetch u = Rejects m"
  shows "snd (get_pokemon_evolution_chain fetch name) = failure (''Error getting evolution chain: '' @ m)"
proof -
  have "snd (get_pokemon_evolution_chain_try fetch name) = Inl (Error m)"
    using evolution_try_outcome [of u fetch name] assms failed_Rejects [of fetch u m]
    by (simp add: evolution_fst)
  then show ?thesis
    unfolding evolution_snd by (simp only: catch_all_Inl)
qed


lemma evolution_single: "length (content (snd (get_pokemon_evolution_chain fetch name))) = 1"
  by (simp add: evolution_snd catch_all_single)

subsection \<open>The comparison\<close>

lemma fetch_rows_outcome:
  assumes "\<forall>v \<in> set requests. \<not> failed fetch v"
    and "u \<in> set (fst (fetch_rows fetch names pokemonData requests))"
    and "failed fetch u"
  shows "isl (snd (fetch_rows fetch names pokemonData requests))
       \<and> (\<forall>m. fetch u = Rejects m \<longrightarrow> snd (fetch_rows fetch names pokemonData requests) = Inl (Error m))"
  using assms
proof (induction names arbitrary: pokemonData requests)
  case Nil
  then show ?case by auto
next
  case (Cons name names)
  define url where "url = ''https://pokeapi.co/api/v2/pokemon/'' @ toLowerCase name"
  define c where \<open>c = ''Pokemon "'' @ name @ ''"''\<close>
  have step: "fetch_rows fetch (name # names) pokemonData requests =
     (case get_json fetch url c of
        Inl error \<Rightarrow> (requests @ [url], Inl error)
      | Inr data \<Rightarrow>
          (case make_row data of
             Inl error \<Rightarrow> (requests @ [url], Inl error)
           | Inr r \<Rightarrow> fetch_rows fetch names (pokemonData @ [r]) (requests @ [url])))"
    unfolding url_def c_def fetch_rows.simps Let_def by (rule refl)
  show ?case
  proof (cases "get_json fetch url c")
    case (Inl e)
    have eq: "fetch_rows fetch (name # names) pokemonData requests = (requests @ [url], Inl e)"
      unfolding step Inl by simp
    have "u = url" using Cons.prems unfolding eq by auto
    then show ?thesis using eq get_json_Inl_cases [OF Inl Cons.prems(3)] by simp
  next
    case j: (Inr data)
    have good: "\<not> failed fetch url" using get_json_Inr [OF j] .
    show ?thesis
    proof (cases "make_row data")
      case (Inl e)
      have "fetch_rows fetch (name # names) pokemonData requests = (requests @ [url], Inl e)"
        unfolding step j by (simp add: Inl)
      then show ?thesis using Cons.prems good by auto
    next
      case (Inr r)
      have eq: "fetch_rows fetch (name # names) pokemonData requests
                  = fetch_rows fetch names (pokemonData @ [r]) (requests @ [url])"
        unfolding step j by (simp add: Inr)
      have inv: "\<forall>v \<in> set (requests @ [url]). \<not> failed fetch v"
        using Cons.prems(1) good by auto
      show ?thesis
        using Cons.IH [OF inv _ Cons.prems(3)] Cons.prems(2) unfolding eq by blast
    qed
  qed
qed

lemma compare_fst: "fst (compare_pokemon fetch names) = fst (fetch_rows fetch names [] [])"
  by (simp add: compare_pokemon_def compare_pokemon_try_def split: prod.splits sum.splits)

lemma compare_snd:
  "snd (compare_pokemon fetch names)
     = catch_all ''Error comparing Pokemon: ''
         (case snd (fetch_rows fetch names [] []) of
            Inl error \<Rightarrow> Inl error
          | Inr pokemonData \<Rightarrow> Inr (render_table pokemonData))"
  by (simp add: compare_pokemon_def compare_pokemon_try_def split: prod.splits sum.splits)

lemma compare_rejected:
  assumes "u \<in> set (fst (compare_pokemon fetch names))" and "fetch u = Rejects m"
  shows "snd (compare_pokemon fetch names) = failure (''Error comparing Pokemon: '' @ m)"
proof -
  have "snd (fetch_rows fetch names [] []) = Inl (Error m)"
    using fetch_rows_outcome [of "[]" fetch u names "[]"] assms failed_Rejects [of fetch u m]
    by (simp add: compare_fst)
  then show ?thesis
    unfolding compare_snd by (simp only: catch_all_Inl sum.case)
qed


lemma compare_single: "length (content (snd (compare_pokemon fetch names))) = 1"
  by (simp add: compare_snd catch_all_single)

section \<open>Failures are flagged\<close>




lemma get_json_ok: 
  "fetch url = Resolves r \<Longrightarrow> ok r \<Longrightarrow> json_body r = Inr b \<Longrightarrow> get_json fetch url c = Inr b"
  by (simp add: get_json_def)








section \<open>Network failures and the empty name\<close>



text \<open>
  Claim C4, as amended. When a request a handler issued is rejected at the network layer
  with a message, the result is the error-flagged text made of the operation's prefix
  followed by that message, unchanged: the cause message is kept, and neither a context
  label nor a network marker is added.
\<close>

theorem network_failure_message:
  "(u1 \<in> set (fst (get_pokemon_pokedex_info fetch1 zm name1)) \<and> fetch1 u1 = Rejects m1 \<longrightarrow>
      snd (get_pokemon_pokedex_info fetch1 zm name1) = failure (''Error getting pokemon info: '' @ m1))
   \<and> (u2 \<in> set (fst (search_pokemon_by_type fetch2 type limit2)) \<and> fetch2 u2 = Rejects m2 \<longrightarrow>
      snd (search_pokemon_by_type fetch2 type limit2)
        = failure (''Error searching Pokemon by type: '' @ m2))
   \<and> (u3 \<in> set (fst (search_pokemon_by_generation fetch3 generation limit3)) \<and> fetch3 u3 = Rejects m3 \<longrightarrow>
      snd (search_pokemon_by_generation fetch3 generation limit3)
        = failure (''Error searching Pokemon by generation: '' @ m3))
   \<and> (u4 \<in> set (fst (get_pokemon_evolution_chain fetch4 name4)) \<and> fetch4 u4 = Rejects m4 \<longrightarrow>
      snd (get_pokemon_evolution_chain fetch4 name4)
        = failure (''Error getting evolution chain: '' @ m4))
   \<and> (u5 \<in> set (fst (compare_pokemon fetch5 names)) \<and> fetch5 u5 = Rejects m5 \<longrightarrow>
      snd (compare_pokemon fetch5 names) = failure (''Error comparing Pokemon: '' @ m5))"
  using info_rejected [of u1 fetch1 zm name1 m1] type_rejected [of u2 fetch2 type limit2 m2]
    generation_rejected [of u3 fetch3 generation limit3 m3]
    evolution_rejected [of u4 fetch4 name4 m4] compare_rejected [of u5 fetch5 names m5]
  by blast

text \<open>The premises of the amended C4 hold for the type search on an unreachable upstream.\<close>

theorem network_failure_message_witness:
  "snd (get_pokemon_pokedex_info offline invalid_input ''Pikachu'')
     = failure ''Error getting pokemon info: fetch failed''
   \<and> snd (search_pokemon_by_type offline ''Fire'' None)
       = failure ''Error searching Pokemon by type: fetch failed''
   \<and> snd (search_pokemon_by_generation offline 1 None)
       = failure ''Error searching Pokemon by generation: fetch failed''
   \<and> snd (get_pokemon_evolution_chain offline ''Pikachu'')
       = failure ''Error getting evolution chain: fetch failed''
   \<and> snd (compare_pokemon offline [''Pikachu'', ''Raichu''])
       = failure ''Error comparing Pokemon: fetch failed''"
proof -
  have h1: "''https://pokeapi.co/api/v2/pokemon/pikachu''
     \<in> set (fst (get_pokemon_pokedex_info offline invalid_input ''Pikachu''))"
    by code_simp
  have f1: "(offline :: string \<Rightarrow> json fetch_result) ''https://pokeapi.co/api/v2/pokemon/pikachu''
              = Rejects ''fetch failed''"
    by (simp add: offline_def)
  have h2: "''https://pokeapi.co/api/v2/type/fire'' \<in> set (fst (search_pokemon_by_type offline ''Fire'' None))"
    by code_simp
  have f2: "(offline :: string \<Rightarrow> body fetch_result) ''https://pokeapi.co/api/v2/type/fire''
              = Rejects ''fetch failed''"
    by (simp add: offline_def)
  have h3: "''https://pokeapi.co/api/v2/generation/1''
     \<in> set (fst (search_pokemon_by_generation offline 1 None))"
    by code_simp
  have f3: "(offline :: string \<Rightarrow> body fetch_result) ''https://pokeapi.co/api/v2/generation/1''
              = Rejects ''fetch failed''"
    by (simp add: offline_def)
  have h4: "''https://pokeapi.co/api/v2/pokemon/pikachu''
     \<in> set (fst (get_pokemon_evolution_chain offline ''Pikachu''))"
    by code_simp
  have f4: "(offline :: string \<Rightarrow> body fetch_result) ''https://pokeapi.co/api/v2/pokemon/pikachu''
              = Rejects ''fetch failed''"
    by (simp add: offline_def)
  have h5: "''https://pokeapi.co/api/v2/pokemon/pikachu''
     \<in> set (fst (compare_pokemon offline [''Pikachu'', ''Raichu'']))"
    by code_simp
  note t = network_failure_message [where ?fetch1.0 = offline and zm = invalid_input
        and ?name1.0 = "''Pikachu''" and ?u1.0 = "''https://pokeapi.co/api/v2/pokemon/pikachu''"
        and ?m1.0 = "''fetch failed''"
        and ?fetch2.0 = offline and type = "''Fire''" and ?limit2.0 = None
        and ?u2.0 = "''https://pokeapi.co/api/v2/type/fire''" and ?m2.0 = "''fetch failed''"
        and ?fetch3.0 = offline and generation = 1 and ?limit3.0 = None
        and ?u3.0 = "''https://pokeapi.co/api/v2/generation/1''" and ?m3.0 = "''fetch failed''"
        and ?fetch4.0 = offline and ?name4.0 = "''Pikachu''"
        and ?u4.0 = "''https://pokeapi.co/api/v2/pokemon/pikachu''" and ?m4.0 = "''fetch failed''"
        and ?fetch5.0 = offline and names = "[''Pikachu'', ''Raichu'']"
        and ?u5.0 = "''https://pokeapi.co/api/v2/pokemon/pikachu''" and ?m5.0 = "''fetch failed''"]
  show ?thesis
    using t h1 f1 h2 f2 h3 f3 h4 f4 h5 by simp
qed

text \<open>
  Claim C6, as amended. A name that is empty after normalization is the empty name, and
  it is not rejected before the upstream call: \<open>get_pokemon_pokedex_info\<close> issues one
  request, to \<open>/pokemon/\<close> with the empty slug, and the result is decided by the answer
  to that request as for any other name.
\<close>

theorem empty_name_is_requested:
  assumes "replace_spaces (toLowerCase name) ''-'' = []"
  shows "name = []
       \<and> fst (get_pokemon_pokedex_info fetch zm name) = [''https://pokeapi.co/api/v2/pokemon/'']
       \<and> (fetch ''https://pokeapi.co/api/v2/pokemon/'' = Rejects m \<longrightarrow>
            snd (get_pokemon_pokedex_info fetch zm name)
              = failure (''Error getting pokemon info: '' @ m))
       \<and> (fetch ''https://pokeapi.co/api/v2/pokemon/'' = Resolves r \<and> ok r \<and> json_body r = Inr b
            \<and> PokemonSchema_parse b = Some p \<longrightarrow>
            snd (get_pokemon_pokedex_info fetch zm name) = success (pokemon_info_text p))
       \<and> (fetch ''https://pokeapi.co/api/v2/pokemon/'' = Resolves r \<and> ok r \<and> json_body r = Inr b
            \<and> PokemonSchema_parse b = None \<longrightarrow>
            snd (get_pokemon_pokedex_info fetch zm name)
              = failure (''Error getting pokemon info: '' @ zm b))"
proof -
  have name: "name = []"
  proof (cases name)
    case Nil
    then show ?thesis .
  next
    case (Cons c cs)
    then have "replace_spaces (toLowerCase name) ''-'' \<noteq> []"
      by (simp add: toLowerCase_def)
    then show ?thesis using assms by simp
  qed
  have url: "''https://pokeapi.co/api/v2/pokemon/'' @ replace_spaces (toLowerCase name) ''-''
               = ''https://pokeapi.co/api/v2/pokemon/''"
    using assms by simp
  have reqs: "fst (get_pokemon_pokedex_info fetch zm name) = [''https://pokeapi.co/api/v2/pokemon/'']"
    unfolding info_requests url ..
  have rej: "fetch ''https://pokeapi.co/api/v2/pokemon/'' = Rejects m \<longrightarrow>
            snd (get_pokemon_pokedex_info fetch zm name)
              = failure (''Error getting pokemon info: '' @ m)"
    using info_rejected [of "''https://pokeapi.co/api/v2/pokemon/''" fetch zm name m] reqs by simp
  have val: "fetch ''https://pokeapi.co/api/v2/pokemon/'' = Resolves r \<and> ok r \<and> json_body r = Inr b
            \<and> PokemonSchema_parse b = Some p \<longrightarrow>
            snd (get_pokemon_pokedex_info fetch zm name) = success (pokemon_info_text p)"
    using info_valid [of fetch name r b p zm] unfolding url by blast
  have inv: "fetch ''https://pokeapi.co/api/v2/pokemon/'' = Resolves r \<and> ok r \<and> json_body r = Inr b
            \<and> PokemonSchema_parse b = None \<longrightarrow>
            snd (get_pokemon_pokedex_info fetch zm name)
              = failure (''Error getting pokemon info: '' @ zm b)"
    using info_invalid [of fetch name r b zm] unfolding url by blast
  show ?thesis using name reqs rej val inv by blast
qed

text \<open>The premise of the amended C6 holds for the empty name.\<close>

theorem empty_name_is_requested_witness:
  "replace_spaces (toLowerCase '''') ''-'' = []
   \<and> fst (get_pokemon_pokedex_info pikachu_only invalid_input '''')
       = [''https://pokeapi.co/api/v2/pokemon/'']"
proof -
  have h: "replace_spaces (toLowerCase '''') ''-'' = []" by code_simp
  show ?thesis
    using h empty_name_is_requested [OF h, of pikachu_only invalid_input] by simp
qed

section \<open>The evolution tree and the limit of the searches\<close>

lemma foldl_append_concat: "foldl (\<lambda>result x. result @ f x) acc xs = acc @ concat (map f xs)"
  by (induction xs arbitrary: acc) simp_all

lemma parseEvolutionChain_unfold:
  "parseEvolutionChain (Chain species evolutions) level
     = (repeat ''  '' level @ bullet @ '' '' @ capitalize species)
       # concat (map (\<lambda>e. parseEvolutionChain e (level + 1)) evolutions)"
  by (cases evolutions) (simp_all add: Let_def foldl_append_concat)

lemma repeat_two_spaces: "repeat ''  '' n = replicate (2 * n) (CHR '' '')"
  by (induction n) (simp_all add: repeat_def)

lemma parseEvolutionChain_preorder:
  "parseEvolutionChain ch level = map tree_line (preorder ch level)"
proof (induction ch arbitrary: level)
  case (Chain species evolutions)
  have kids: "concat (map (\<lambda>e. parseEvolutionChain e (level + 1)) evolutions)
          = concat (map (\<lambda>e. map tree_line (preorder e (level + 1))) evolutions)"
    using Chain.IH by (induction evolutions) simp_all
  have line: "repeat ''  '' level @ bullet @ '' '' @ capitalize species = tree_line (level, species)"
    by (simp add: tree_line_def repeat_two_spaces)
  show ?case
    unfolding parseEvolutionChain_unfold kids line
    by (simp add: map_concat comp_def)
qed

lemma capitalize_Nil: "capitalize [] = []"
  by (simp add: capitalize_def toUpperCase_def charAt_def js_slice_from_def js_slice_def)

lemma capitalize_Cons: "capitalize (c # cs) = upper_char c # cs"
  by (simp add: capitalize_def toUpperCase_def charAt_def js_slice_from_def js_slice_def Let_def)

lemma upper_char_unchanged: "\<not> is_lower c \<Longrightarrow> upper_char c = c"
  by (simp add: upper_char_def)

lemma upper_char_lower: "is_lower c \<Longrightarrow> (of_char (upper_char c) :: nat) = of_char c - 32"
proof -
  assume l: "is_lower c"
  then have "(of_char c :: nat) - 32 < 256" unfolding is_lower_def by linarith
  then have "((of_char c :: nat) - 32) mod 256 = of_char c - 32" by (rule mod_less)
  then show ?thesis using l by (simp add: upper_char_def)
qed

lemma evolution_ok:
  assumes "fetch (''https://pokeapi.co/api/v2/pokemon/'' @ toLowerCase name) = Resolves r1"
    and "ok r1" and "json_body r1 = Inr (PokemonData p)"
    and "fetch (species_url p) = Resolves r2"
    and "ok r2" and "json_body r2 = Inr (SpeciesData url3)"
    and "fetch url3 = Resolves r3"
    and "ok r3" and "json_body r3 = Inr (EvolutionData ch)"
  shows "get_pokemon_evolution_chain fetch name
           = ([''https://pokeapi.co/api/v2/pokemon/'' @ toLowerCase name, species_url p, url3],
              success (''Evolution chain for '' @ capitalize name @ '':\<newline>\<newline>'' @
                       join ''\<newline>'' (parseEvolutionChain ch 0)))"
proof -
  have j1: "get_json fetch (''https://pokeapi.co/api/v2/pokemon/'' @ toLowerCase name) c
              = Inr (PokemonData p)" for c
    using assms(1-3) by (simp add: get_json_def)
  have j2: "get_json fetch (species_url p) c = Inr (SpeciesData url3)" for c
    using assms(4-6) by (simp add: get_json_def)
  have j3: "get_json fetch url3 c = Inr (EvolutionData ch)" for c
    using assms(7-9) by (simp add: get_json_def)
  have "get_pokemon_evolution_chain_try fetch name
           = ([''https://pokeapi.co/api/v2/pokemon/'' @ toLowerCase name, species_url p, url3],
              Inr (''Evolution chain for '' @ capitalize name @ '':\<newline>\<newline>'' @
                       join ''\<newline>'' (parseEvolutionChain ch 0)))"
    unfolding get_pokemon_evolution_chain_try_def Let_def j1 by (simp add: j2 j3)
  then show ?thesis
    by (simp add: get_pokemon_evolution_chain_def catch_all_Inr)
qed

text \<open>
  Claim C8. The lines of an evolution chain are the lines of its depth-first pre-order
  listing: a node at depth \<open>d\<close> is two spaces times \<open>d\<close>, the bullet, a space and the
  species name with its first letter in upper case, followed by the lines of its children,
  in their order, one level deeper. A chain of three stages gives three lines at depths 0,
  1 and 2 (Bulbasaur, Ivysaur, Venusaur); a stem whose evolutions are leaves gives one line
  at depth 0 and one line at depth 1 for each (Eevee). When its three requests succeed,
  the tool returns the header followed by these lines, joined by line feeds.
\<close>

theorem evolution_tree_is_preorder:
  "parseEvolutionChain ch level = map tree_line (preorder ch level)
   \<and> parseEvolutionChain (Chain species evolutions) level
       = (repeat ''  '' level @ bullet @ '' '' @ capitalize species)
         # concat (map (\<lambda>e. parseEvolutionChain e (level + 1)) evolutions)
   \<and> repeat ''  '' level = replicate (2 * level) (CHR '' '')
   \<and> capitalize [] = [] \<and> capitalize (c # cs) = upper_char c # cs
   \<and> (\<not> is_lower c \<longrightarrow> upper_char c = c)
   \<and> (is_lower c \<longrightarrow> (of_char (upper_char c) :: nat) = of_char c - 32)
   \<and> parseEvolutionChain (Chain a [Chain b [Chain d []]]) 0
       = [bullet @ '' '' @ capitalize a,
          ''  '' @ bullet @ '' '' @ capitalize b,
          ''    '' @ bullet @ '' '' @ capitalize d]
   \<and> parseEvolutionChain (Chain ''bulbasaur'' [Chain ''ivysaur'' [Chain ''venusaur'' []]]) 0
       = [bullet @ '' Bulbasaur'', ''  '' @ bullet @ '' Ivysaur'', ''    '' @ bullet @ '' Venusaur'']
   \<and> parseEvolutionChain (Chain stem (map (\<lambda>n. Chain n []) branches)) 0
       = (bullet @ '' '' @ capitalize stem) # map (\<lambda>n. ''  '' @ bullet @ '' '' @ capitalize n) branches
   \<and> parseEvolutionChain
         (Chain ''eevee'' [Chain ''vaporeon'' [], Chain ''jolteon'' [], Chain ''flareon'' []]) 0
       = [bullet @ '' Eevee'', ''  '' @ bullet @ '' Vaporeon'', ''  '' @ bullet @ '' Jolteon'',
          ''  '' @ bullet @ '' Flareon'']
   \<and> (fetch (''https://pokeapi.co/api/v2/pokemon/'' @ toLowerCase name) = Resolves r1
        \<and> ok r1 \<and> json_body r1 = Inr (PokemonData p)
        \<and> fetch (species_url p) = Resolves r2 \<and> ok r2 \<and> json_body r2 = Inr (SpeciesData url3)
        \<and> fetch url3 = Resolves r3 \<and> ok r3 \<and> json_body r3 = Inr (EvolutionData tree) \<longrightarrow>
        snd (get_pokemon_evolution_chain fetch name)
          = success (''Evolution chain for '' @ capitalize name @ '':\<newline>\<newline>'' @
                     join ''\<newline>'' (map tree_line (preorder tree 0)))
        \<and> (tree = Chain a [Chain b [Chain d []]] \<longrightarrow>
             snd (get_pokemon_evolution_chain fetch name)
               = success (''Evolution chain for '' @ capitalize name @ '':\<newline>\<newline>'' @
                          bullet @ '' '' @ capitalize a @ ''\<newline>'' @
                          ''  '' @ bullet @ '' '' @ capitalize b @ ''\<newline>'' @
                          ''    '' @ bullet @ '' '' @ capitalize d)))"
proof -
  have three: "parseEvolutionChain (Chain a [Chain b [Chain d []]]) 0
       = [bullet @ '' '' @ capitalize a,
          ''  '' @ bullet @ '' '' @ capitalize b,
          ''    '' @ bullet @ '' '' @ capitalize d]" for a b d
    by (simp add: Let_def repeat_def numeral_2_eq_2)
  have bulbasaur: "parseEvolutionChain (Chain ''bulbasaur'' [Chain ''ivysaur'' [Chain ''venusaur'' []]]) 0
       = [bullet @ '' Bulbasaur'', ''  '' @ bullet @ '' Ivysaur'', ''    '' @ bullet @ '' Venusaur'']"
    by code_simp
  have eevee: "parseEvolutionChain
         (Chain ''eevee'' [Chain ''vaporeon'' [], Chain ''jolteon'' [], Chain ''flareon'' []]) 0
       = [bullet @ '' Eevee'', ''  '' @ bullet @ '' Vaporeon'', ''  '' @ bullet @ '' Jolteon'',
          ''  '' @ bullet @ '' Flareon'']"
    by code_simp
  have leaf: "\<And>n. parseEvolutionChain (Chain n []) (Suc 0) = [''  '' @ bullet @ '' '' @ capitalize n]"
    by (simp add: Let_def repeat_def)
  have branch: "parseEvolutionChain (Chain stem (map (\<lambda>n. Chain n []) branches)) 0
       = (bullet @ '' '' @ capitalize stem) # map (\<lambda>n. ''  '' @ bullet @ '' '' @ capitalize n) branches"
    unfolding parseEvolutionChain_unfold
    by (induction branches) (simp_all add: repeat_def leaf comp_def del: parseEvolutionChain.simps)
  have handler: "snd (get_pokemon_evolution_chain fetch name)
          = success (''Evolution chain for '' @ capitalize name @ '':\<newline>\<newline>'' @
                     join ''\<newline>'' (map tree_line (preorder tree 0)))
        \<and> (tree = Chain a [Chain b [Chain d []]] \<longrightarrow>
             snd (get_pokemon_evolution_chain fetch name)
               = success (''Evolution chain for '' @ capitalize name @ '':\<newline>\<newline>'' @
                          bullet @ '' '' @ capitalize a @ ''\<newline>'' @
                          ''  '' @ bullet @ '' '' @ capitalize b @ ''\<newline>'' @
                          ''    '' @ bullet @ '' '' @ capitalize d))"
    if h: "fetch (''https://pokeapi.co/api/v2/pokemon/'' @ toLowerCase name) = Resolves r1
        \<and> ok r1 \<and> json_body r1 = Inr (PokemonData p)
        \<and> fetch (species_url p) = Resolves r2 \<and> ok r2 \<and> json_body r2 = Inr (SpeciesData url3)
        \<and> fetch url3 = Resolves r3 \<and> ok r3 \<and> json_body r3 = Inr (EvolutionData tree)"
  proof -
    have res: "snd (get_pokemon_evolution_chain fetch name)
          = success (''Evolution chain for '' @ capitalize name @ '':\<newline>\<newline>'' @
                     join ''\<newline>'' (parseEvolutionChain tree 0))"
      using evolution_ok [of fetch name r1 p r2 url3 r3 tree] h by simp
    have g: "snd (get_pokemon_evolution_chain fetch name)
          = success (''Evolution chain for '' @ capitalize name @ '':\<newline>\<newline>'' @
                     join ''\<newline>'' (map tree_line (preorder tree 0)))"
      unfolding res parseEvolutionChain_preorder ..
    have s: "snd (get_pokemon_evolution_chain fetch name)
               = success (''Evolution chain for '' @ capitalize name @ '':\<newline>\<newline>'' @
                          bullet @ '' '' @ capitalize a @ ''\<newline>'' @
                          ''  '' @ bullet @ '' '' @ capitalize b @ ''\<newline>'' @
                          ''    '' @ bullet @ '' '' @ capitalize d)"
      if t: "tree = Chain a [Chain b [Chain d []]]"
      unfolding res t three by simp
    show ?thesis using g s by blast
  qed
  show ?thesis
    using parseEvolutionChain_preorder [of ch level]
      parseEvolutionChain_unfold [of species evolutions level]
      repeat_two_spaces [of level] capitalize_Nil capitalize_Cons [of c cs]
      upper_char_unchanged [of c] upper_char_lower [of c]
      three [of a b d] bulbasaur branch eevee handler
    by blast
qed

text \<open>The premises of C8 hold for Pikachu on the small upstream, whose chain has three
  stages.\<close>

theorem evolution_tree_is_preorder_witness:
  "get_pokemon_evolution_chain small_upstream ''Pikachu''
     = ([''https://pokeapi.co/api/v2/pokemon/pikachu'',
         ''https://pokeapi.co/api/v2/pokemon-species/25/'',
         ''https://pokeapi.co/api/v2/evolution-chain/10/''],
        success (''Evolution chain for Pikachu:\<newline>\<newline>'' @ bullet @ '' Pichu\<newline>  '' @ bullet @
                 '' Pikachu\<newline>    '' @ bullet @ '' Raichu''))
   \<and> is_lower (CHR ''p'') \<and> upper_char (CHR ''p'') = CHR ''P''
   \<and> \<not> is_lower (CHR ''P'') \<and> upper_char (CHR ''P'') = CHR ''P''"
proof -
  have h1: "small_upstream (''https://pokeapi.co/api/v2/pokemon/'' @ toLowerCase ''Pikachu'')
              = Resolves (Response 200 (Inr (PokemonData pikachu_data)))"
    by code_simp
  have k1: "ok (Response 200 (Inr (PokemonData pikachu_data)))" by (simp add: ok_def)
  have h2: "small_upstream (species_url pikachu_data)
              = Resolves (Response 200 (Inr (SpeciesData ''https://pokeapi.co/api/v2/evolution-chain/10/'')))"
    by code_simp
  have k2: "ok (Response 200 (Inr (SpeciesData ''https://pokeapi.co/api/v2/evolution-chain/10/'')))"
    by (simp add: ok_def)
  have h3: "small_upstream ''https://pokeapi.co/api/v2/evolution-chain/10/''
              = Resolves (Response 200 (Inr (EvolutionData pichu_chain)))"
    by code_simp
  have k3: "ok (Response 200 (Inr (EvolutionData pichu_chain)))" by (simp add: ok_def)
  have sh: "pichu_chain = Chain ''pichu'' [Chain ''pikachu'' [Chain ''raichu'' []]]"
    by (simp add: pichu_chain_def)
  have lo: "is_lower (CHR ''p'')" by code_simp
  have nl: "\<not> is_lower (CHR ''P'')" by code_simp
  have up: "upper_char (CHR ''p'') = CHR ''P''" by code_simp
  note t = evolution_tree_is_preorder [where fetch = small_upstream and name = "''Pikachu''"
      and ?r1.0 = "Response 200 (Inr (PokemonData pikachu_data))" and p = pikachu_data
      and ?r2.0 = "Response 200 (Inr (SpeciesData ''https://pokeapi.co/api/v2/evolution-chain/10/''))"
      and ?url3.0 = "''https://pokeapi.co/api/v2/evolution-chain/10/''"
      and ?r3.0 = "Response 200 (Inr (EvolutionData pichu_chain))" and tree = pichu_chain
      and a = "''pichu''" and b = "''pikachu''" and d = "''raichu''" and c = "CHR ''P''"
      and ch = pichu_chain and level = 0 and species = "''pichu''" and evolutions = "[]"
      and cs = "[]" and stem = "''eevee''" and branches = "[]"]
  note handler = t [THEN conjunct2, THEN conjunct2, THEN conjunct2, THEN conjunct2, THEN conjunct2,
      THEN conjunct2, THEN conjunct2, THEN conjunct2, THEN conjunct2, THEN conjunct2, THEN conjunct2]
  have both: "snd (get_pokemon_evolution_chain small_upstream ''Pikachu'')
          = success (''Evolution chain for '' @ capitalize ''Pikachu'' @ '':\<newline>\<newline>'' @
                     join ''\<newline>'' (map tree_line (preorder pichu_chain 0)))
        \<and> (pichu_chain = Chain ''pichu'' [Chain ''pikachu'' [Chain ''raichu'' []]] \<longrightarrow>
             snd (get_pokemon_evolution_chain small_upstream ''Pikachu'')
               = success (''Evolution chain for '' @ capitalize ''Pikachu'' @ '':\<newline>\<newline>'' @
                          bullet @ '' '' @ capitalize ''pichu'' @ ''\<newline>'' @
                          ''  '' @ bullet @ '' '' @ capitalize ''pikachu'' @ ''\<newline>'' @
                          ''    '' @ bullet @ '' '' @ capitalize ''raichu''))"
    by (rule mp [OF handler]) (intro conjI h1 k1 h2 k2 h3 k3 response.sel)
  have res: "snd (get_pokemon_evolution_chain small_upstream ''Pikachu'')
               = success (''Evolution chain for '' @ capitalize ''Pikachu'' @ '':\<newline>\<newline>'' @
                          bullet @ '' '' @ capitalize ''pichu'' @ ''\<newline>'' @
                          ''  '' @ bullet @ '' '' @ capitalize ''pikachu'' @ ''\<newline>'' @
                          ''    '' @ bullet @ '' '' @ capitalize ''raichu'')"
    by (rule mp [OF conjunct2 [OF both] sh])
  have up2: "upper_char (CHR ''P'') = CHR ''P''"
    by (rule mp [OF t [THEN conjunct2, THEN conjunct2, THEN conjunct2, THEN conjunct2,
          THEN conjunct2, THEN conjunct1] nl])
  have c1: "capitalize ''Pikachu'' = ''Pikachu''" by code_simp
  have c2: "capitalize ''pichu'' = ''Pichu''" by code_simp
  have c3: "capitalize ''pikachu'' = ''Pikachu''" by code_simp
  have c4: "capitalize ''raichu'' = ''Raichu''" by code_simp
  have reqs: "fst (get_pokemon_evolution_chain small_upstream ''Pikachu'')
     = [''https://pokeapi.co/api/v2/pokemon/pikachu'',
         ''https://pokeapi.co/api/v2/pokemon-species/25/'',
         ''https://pokeapi.co/api/v2/evolution-chain/10/'']"
    by code_simp
  have "get_pokemon_evolution_chain small_upstream ''Pikachu''
     = ([''https://pokeapi.co/api/v2/pokemon/pikachu'',
         ''https://pokeapi.co/api/v2/pokemon-species/25/'',
         ''https://pokeapi.co/api/v2/evolution-chain/10/''],
        success (''Evolution chain for Pikachu:\<newline>\<newline>'' @ bullet @ '' Pichu\<newline>  '' @ bullet @
                 '' Pikachu\<newline>    '' @ bullet @ '' Raichu''))"
    using res reqs unfolding c1 c2 c3 c4 by (simp add: prod_eq_iff)
  then show ?thesis
    using lo nl up up2 by simp
qed

lemma js_slice_prefix: "js_slice 0 limit xs = take (prefix_length limit (length xs)) xs"
proof (cases "0 \<le> limit")
  case True
  then have "nat (min limit (int (length xs))) = min (nat limit) (length xs)"
    by linarith
  then show ?thesis
    using True by (simp add: js_slice_def prefix_length_def Let_def)
next
  case False
  have "nat (max (int (length xs) + limit) 0) = length xs - nat (- limit)"
    using False by (simp add: max_def) linarith
  then show ?thesis
    using False by (simp add: js_slice_def prefix_length_def Let_def)
qed

lemma prefix_length_min: "min n (prefix_length limit n) = prefix_length limit n"
  by (simp add: prefix_length_def)

lemma type_search_ok:
  assumes "fetch (''https://pokeapi.co/api/v2/type/'' @ toLowerCase type) = Resolves r"
    and "ok r" and "json_body r = Inr (TypeData members)"
  shows "snd (search_pokemon_by_type fetch type (Some limit))
     = success (''Found '' @ show_nat (prefix_length limit (length members)) @ '' '' @ capitalize type @
                '' type Pokemon:\<newline>\<newline>'' @
                join ''\<newline>'' (map entry_line (map list_entry
                   (take (prefix_length limit (length members)) members))))"
proof -
  have "snd (search_pokemon_by_type_try fetch type limit)
     = Inr (''Found '' @ show_nat (prefix_length limit (length members)) @ '' '' @ capitalize type @
                '' type Pokemon:\<newline>\<newline>'' @
                join ''\<newline>'' (map entry_line (map list_entry
                   (take (prefix_length limit (length members)) members))))"
    unfolding search_pokemon_by_type_try_def Let_def
    using get_json_ok [of fetch _ r "TypeData members"] assms
    by (simp add: js_slice_prefix prefix_length_min)
  then show ?thesis
    unfolding type_snd by (simp add: catch_all_Inr)
qed

lemma generation_search_ok:
  assumes "fetch (''https://pokeapi.co/api/v2/generation/'' @ show_int generation) = Resolves r"
    and "ok r" and "json_body r = Inr (GenerationData members)"
  shows "snd (search_pokemon_by_generation fetch generation (Some limit))
     = success (''Found '' @ show_nat (prefix_length limit (length members)) @
                '' Pokemon from Generation '' @ show_int generation @ '':\<newline>\<newline>'' @
                join ''\<newline>'' (map entry_line (map list_entry
                   (take (prefix_length limit (length members)) members))))"
proof -
  have "snd (search_pokemon_by_generation_try fetch generation limit)
     = Inr (''Found '' @ show_nat (prefix_length limit (length members)) @
                '' Pokemon from Generation '' @ show_int generation @ '':\<newline>\<newline>'' @
                join ''\<newline>'' (map entry_line (map list_entry
                   (take (prefix_length limit (length members)) members))))"
    unfolding search_pokemon_by_generation_try_def Let_def
    using get_json_ok [of fetch _ r "GenerationData members"] assms
    by (simp add: js_slice_prefix prefix_length_min)
  then show ?thesis
    unfolding generation_snd by (simp add: catch_all_Inr)
qed

text \<open>
  Claim C10. When the listing is fetched, both searches return the entries of
  \<^verbatim>\<open>slice(0, limit)\<close>: the first \<open>min limit n\<close> of the \<open>n\<close> members for a limit that is not
  negative, all but the last \<open>k\<close> for the limit \<open>- k\<close>; the header counts them, and the
  limit 0 gives a success with the header \<open>Found 0\<close> and no entry.
\<close>

theorem limit_is_slice_prefix:
  assumes "fetch (''https://pokeapi.co/api/v2/type/'' @ toLowerCase type) = Resolves r"
    and "ok r" and "json_body r = Inr (TypeData members)"
    and "fetch (''https://pokeapi.co/api/v2/generation/'' @ show_int generation) = Resolves r'"
    and "ok r'" and "json_body r' = Inr (GenerationData species)"
  shows "js_slice 0 limit members = take (prefix_length limit (length members)) members
     \<and> snd (search_pokemon_by_type fetch type (Some limit))
       = success (''Found '' @ show_nat (prefix_length limit (length members)) @ '' '' @ capitalize type @
                '' type Pokemon:\<newline>\<newline>'' @
                join ''\<newline>'' (map entry_line (map list_entry
                   (take (prefix_length limit (length members)) members))))
     \<and> snd (search_pokemon_by_generation fetch generation (Some limit))
       = success (''Found '' @ show_nat (prefix_length limit (length species)) @
                '' Pokemon from Generation '' @ show_int generation @ '':\<newline>\<newline>'' @
                join ''\<newline>'' (map entry_line (map list_entry
                   (take (prefix_length limit (length species)) species))))
     \<and> snd (search_pokemon_by_type fetch type (Some 0))
       = success (''Found 0 '' @ capitalize type @ '' type Pokemon:\<newline>\<newline>'')
     \<and> snd (search_pokemon_by_generation fetch generation (Some 0))
       = success (''Found 0 Pokemon from Generation '' @ show_int generation @ '':\<newline>\<newline>'')
     \<and> (limit < 0 \<longrightarrow> prefix_length limit (length members) = length members - nat (- limit))
     \<and> (0 \<le> limit \<longrightarrow> prefix_length limit (length members) = min (nat limit) (length members))"
proof -
  have z: "prefix_length 0 n = 0" for n by (simp add: prefix_length_def)
  have t0: "snd (search_pokemon_by_type fetch type (Some 0))
       = success (''Found 0 '' @ capitalize type @ '' type Pokemon:\<newline>\<newline>'')"
    using type_search_ok [of fetch type r members 0] assms(1-3)
    by (simp add: z show_nat_0)
  have g0: "snd (search_pokemon_by_generation fetch generation (Some 0))
       = success (''Found 0 Pokemon from Generation '' @ show_int generation @ '':\<newline>\<newline>'')"
    using generation_search_ok [of fetch generation r' species 0] assms(4-6)
    by (simp add: z show_nat_0)
  show ?thesis
    using js_slice_prefix [of limit members] type_search_ok [of fetch type r members limit]
      generation_search_ok [of fetch generation r' species limit] t0 g0 assms
    by (simp add: prefix_length_def)
qed

text \<open>The premises of C10 hold for the small upstream, where the limit \<open>- 1\<close> drops the
  last of the three members.\<close>

theorem limit_is_slice_prefix_witness:
  "snd (search_pokemon_by_type small_upstream ''Fire'' (Some (- 1)))
     = success (''Found 2 Fire type Pokemon:\<newline>\<newline>'' @ bullet @ '' Charmander (#4)\<newline>'' @ bullet @ '' Charmeleon (#5)'')
   \<and> snd (search_pokemon_by_type small_upstream ''Fire'' (Some 0))
     = success ''Found 0 Fire type Pokemon:\<newline>\<newline>''
   \<and> snd (search_pokemon_by_generation small_upstream 1 (Some 0))
     = success ''Found 0 Pokemon from Generation 1:\<newline>\<newline>''"
proof -
  have h1: "small_upstream (''https://pokeapi.co/api/v2/type/'' @ toLowerCase ''Fire'')
              = Resolves (Response 200 (Inr (TypeData fire_members)))"
    by code_simp
  have h2: "ok (Response 200 (Inr (TypeData fire_members)))" by (simp add: ok_def)
  have h3: "json_body (Response 200 (Inr (TypeData fire_members))) = Inr (TypeData fire_members)"
    by simp
  have h4: "small_upstream (''https://pokeapi.co/api/v2/generation/'' @ show_int 1)
              = Resolves (Response 200 (Inr (GenerationData fire_members)))"
    by code_simp
  have h5: "ok (Response 200 (Inr (GenerationData fire_members)))" by (simp add: ok_def)
  have h6: "json_body (Response 200 (Inr (GenerationData fire_members))) = Inr (GenerationData fire_members)"
    by simp
  have v1: "''Found '' @ show_nat (prefix_length (- 1) (length fire_members)) @ '' '' @ capitalize ''Fire'' @
                '' type Pokemon:\<newline>\<newline>'' @
                join ''\<newline>'' (map entry_line (map list_entry
                   (take (prefix_length (- 1) (length fire_members)) fire_members)))
            = ''Found 2 Fire type Pokemon:\<newline>\<newline>'' @ bullet @ '' Charmander (#4)\<newline>'' @ bullet @ '' Charmeleon (#5)''"
    by code_simp
  have v2: "capitalize ''Fire'' = ''Fire''" by code_simp
  have v3: "show_int 1 = ''1''" by code_simp
  show ?thesis
    using h1 h2 h3 h4 h5 h6 v1 v2 v3
      limit_is_slice_prefix [of small_upstream "''Fire''" "Response 200 (Inr (TypeData fire_members))"
        fire_members 1 "Response 200 (Inr (GenerationData fire_members))" fire_members "- 1"]
    by simp
qed

section \<open>Name normalization and the slug of the multi-tool server\<close>

lemma char_eq_code: "(of_char d :: nat) = k \<Longrightarrow> c = d \<longleftrightarrow> (of_char c :: nat) = k"
  by auto

lemma is_space_code: "is_space c \<longleftrightarrow> (of_char c :: nat) \<in> {9, 10, 11, 12, 13, 32}"
proof -
  have "c = CHR 0x09 \<longleftrightarrow> (of_char c :: nat) = 9" by (rule char_eq_code) simp
  moreover have "c = CHR 0x0A \<longleftrightarrow> (of_char c :: nat) = 10" by (rule char_eq_code) simp
  moreover have "c = CHR 0x0B \<longleftrightarrow> (of_char c :: nat) = 11" by (rule char_eq_code) simp
  moreover have "c = CHR 0x0C \<longleftrightarrow> (of_char c :: nat) = 12" by (rule char_eq_code) simp
  moreover have "c = CHR 0x0D \<longleftrightarrow> (of_char c :: nat) = 13" by (rule char_eq_code) simp
  moreover have "c = CHR '' '' \<longleftrightarrow> (of_char c :: nat) = 32" by (rule char_eq_code) simp
  ultimately show ?thesis
    unfolding is_space_def by simp
qed

lemma lower_char_unchanged: "\<not> is_upper c \<Longrightarrow> lower_char c = c"
  by (simp add: lower_char_def)

lemma lower_char_upper: "is_upper c \<Longrightarrow> (of_char (lower_char c) :: nat) = of_char c + 32"
  by (simp add: lower_char_def is_upper_def)

lemma is_space_lower_char: "is_space (lower_char c) = is_space c"
proof (cases "is_upper c")
  case True
  then have "\<not> is_space c" and "\<not> is_space (lower_char c)"
    using lower_char_upper [OF True] by (auto simp: is_space_code is_upper_def)
  then show ?thesis by simp
next
  case False
  then show ?thesis by (simp add: lower_char_unchanged)
qed

lemma no_space_toLowerCase:
  "list_all (\<lambda>c. \<not> is_space c) (toLowerCase u) = list_all (\<lambda>c. \<not> is_space c) u"
  by (induction u) (simp_all add: toLowerCase_def is_space_lower_char)

lemma all_space_toLowerCase: "list_all is_space (toLowerCase s) = list_all is_space s"
  by (induction s) (simp_all add: toLowerCase_def is_space_lower_char)

lemma toLowerCase_append: "toLowerCase (xs @ ys) = toLowerCase xs @ toLowerCase ys"
  by (simp add: toLowerCase_def)

lemma toLowerCase_normalized: "normalized str \<Longrightarrow> toLowerCase str = str"
  by (induction str) (auto simp: normalized_def ascii_def toLowerCase_def lower_char_def)

lemma replace_spaces_no_space: "list_all (\<lambda>c. \<not> is_space c) str \<Longrightarrow> replace_spaces str by = str"
  by (induction str) auto

lemma dropWhile_run:
  assumes "list_all is_space s" and "rest = [] \<or> \<not> is_space (hd rest)"
  shows "dropWhile is_space (s @ rest) = rest"
proof -
  have "dropWhile is_space rest = rest"
    using assms(2) by (cases rest) auto
  then show ?thesis
    using assms(1) by (simp add: dropWhile_append2 list_all_iff)
qed

lemma replace_spaces_run:
  assumes "list_all (\<lambda>c. \<not> is_space c) u" and "s \<noteq> []" and "list_all is_space s"
    and "rest = [] \<or> \<not> is_space (hd rest)"
  shows "replace_spaces (u @ s @ rest) by = u @ by @ replace_spaces rest by"
  using assms(1)
proof (induction u)
  case Nil
  obtain c s' where s: "s = c # s'" using assms(2) by (cases s) auto
  have c: "is_space c" and s': "list_all is_space s'" using assms(3) s by auto
  show ?case
    using c dropWhile_run [OF s' assms(4)] by (simp add: s)
next
  case (Cons c u)
  then show ?case by simp
qed

lemma normalize_run:
  assumes "list_all (\<lambda>c. \<not> is_space c) u" and "s \<noteq> []" and "list_all is_space s"
    and "rest = [] \<or> \<not> is_space (hd rest)"
  shows "replace_spaces (toLowerCase (u @ s @ rest)) ''-''
           = toLowerCase u @ ''-'' @ replace_spaces (toLowerCase rest) ''-''"
proof -
  have r: "toLowerCase rest = [] \<or> \<not> is_space (hd (toLowerCase rest))"
    using assms(4) by (cases rest) (auto simp: toLowerCase_def is_space_lower_char)
  have "toLowerCase s \<noteq> []" using assms(2) by (simp add: toLowerCase_def)
  then show ?thesis
    unfolding toLowerCase_append
    using replace_spaces_run [of "toLowerCase u" "toLowerCase s" "toLowerCase rest" "''-''"]
      assms(1,3) r
    by (simp add: no_space_toLowerCase all_space_toLowerCase)
qed

lemma normalize_normalized:
  "normalized str \<Longrightarrow> replace_spaces (toLowerCase str) ''-'' = str"
proof -
  assume n: "normalized str"
  then have "list_all (\<lambda>c. \<not> is_space c) str"
    by (simp add: normalized_def list_all_iff)
  then show ?thesis
    using n by (simp add: toLowerCase_normalized replace_spaces_no_space)
qed

text \<open>
  Claim C7, as amended. On names of ASCII characters, normalization lower-cases the
  letters A-Z, replaces every maximal run of white space with one hyphen and leaves every
  other character as it is: a run between a part without white space and a rest that does
  not start with white space becomes one hyphen, whatever its length, and a part without
  white space is lower-cased character by character. So \<open>Mr. Mime\<close> is mapped to
  \<open>mr.-mime\<close> (the full stop is kept); a name of ASCII characters with no upper-case
  letter and no white space is passed through unchanged; and the URL requested is the one
  of the normalized name.
\<close>

theorem name_normalization:
  "replace_spaces (toLowerCase ''Mr. Mime'') ''-'' = ''mr.-mime''
   \<and> replace_spaces (toLowerCase (''Tapu  '' @ [CHR 0x09] @ '' Koko'')) ''-'' = ''tapu-koko''
   \<and> (ascii (u @ s @ rest) \<and> list_all (\<lambda>c. \<not> is_space c) u \<and> s \<noteq> [] \<and> list_all is_space s
        \<and> (rest = [] \<or> \<not> is_space (hd rest)) \<longrightarrow>
        replace_spaces (toLowerCase (u @ s @ rest)) ''-''
          = toLowerCase u @ ''-'' @ replace_spaces (toLowerCase rest) ''-'')
   \<and> (ascii u \<and> list_all (\<lambda>c. \<not> is_space c) u \<longrightarrow>
        replace_spaces (toLowerCase u) ''-'' = map lower_char u)
   \<and> (\<not> is_upper c \<longrightarrow> lower_char c = c)
   \<and> (is_upper c \<longrightarrow> (of_char (lower_char c) :: nat) = of_char c + 32)
   \<and> (normalized name \<longrightarrow> replace_spaces (toLowerCase name) ''-'' = name)
   \<and> fst (get_pokemon_pokedex_info fetch zm name)
       = [''https://pokeapi.co/api/v2/pokemon/'' @ replace_spaces (toLowerCase name) ''-'']"
proof -
  have e1: "replace_spaces (toLowerCase ''Mr. Mime'') ''-'' = ''mr.-mime''"
    by code_simp
  have e2: "replace_spaces (toLowerCase (''Tapu  '' @ [CHR 0x09] @ '' Koko'')) ''-'' = ''tapu-koko''"
    by code_simp
  have run: "ascii (u @ s @ rest) \<and> list_all (\<lambda>c. \<not> is_space c) u \<and> s \<noteq> [] \<and> list_all is_space s
        \<and> (rest = [] \<or> \<not> is_space (hd rest)) \<longrightarrow>
        replace_spaces (toLowerCase (u @ s @ rest)) ''-''
          = toLowerCase u @ ''-'' @ replace_spaces (toLowerCase rest) ''-''"
    using normalize_run [of u s rest] by blast
  have word: "ascii u \<and> list_all (\<lambda>c. \<not> is_space c) u \<longrightarrow>
        replace_spaces (toLowerCase u) ''-'' = map lower_char u"
    using replace_spaces_no_space [of "toLowerCase u" "''-''"]
    by (simp add: no_space_toLowerCase) (simp add: toLowerCase_def)
  show ?thesis
    using e1 e2 run word lower_char_unchanged [of c] lower_char_upper [of c]
      normalize_normalized [of name] info_requests [of fetch zm name]
    by blast
qed

text \<open>The premises of the amended C7 hold for \<open>Mr.\<close>, a run of two spaces and \<open>Mime\<close>,
  and for the normalized name \<open>mr-mime\<close>.\<close>

theorem name_normalization_witness:
  "replace_spaces (toLowerCase ''Mr.  Mime'') ''-'' = ''mr.-mime''
   \<and> replace_spaces (toLowerCase ''Mr.'') ''-'' = ''mr.''
   \<and> normalized ''mr-mime'' \<and> replace_spaces (toLowerCase ''mr-mime'') ''-'' = ''mr-mime''
   \<and> lower_char (CHR ''.'') = CHR ''.'' \<and> lower_char (CHR ''M'') = CHR ''m''"
proof -
  have a: "ascii (''Mr.'' @ ''  '' @ ''Mime'')" by code_simp
  have u: "list_all (\<lambda>c. \<not> is_space c) ''Mr.''" by code_simp
  have s: "''  '' \<noteq> []" by simp
  have ss: "list_all is_space ''  ''" by code_simp
  have r: "''Mime'' = [] \<or> \<not> is_space (hd ''Mime'')" by code_simp
  have au: "ascii ''Mr.''" by code_simp
  have n: "normalized ''mr-mime''" by code_simp
  have nu: "\<not> is_upper (CHR ''.'')" by code_simp
  have up: "is_upper (CHR ''M'')" by code_simp
  have v1: "toLowerCase ''Mr.'' = ''mr.''" by code_simp
  have v2: "replace_spaces (toLowerCase ''Mime'') ''-'' = ''mime''" by code_simp
  have v3: "map lower_char ''Mr.'' = ''mr.''" by code_simp
  have v4: "lower_char (CHR ''M'') = CHR ''m''" by code_simp
  note t1 = name_normalization [of "''Mr.''" "''  ''" "''Mime''" "CHR ''.''" "''mr-mime''"]
  note t2 = name_normalization [of "''Mr.''" "''  ''" "''Mime''" "CHR ''M''" "''mr-mime''"]
  have "replace_spaces (toLowerCase (''Mr.'' @ ''  '' @ ''Mime'')) ''-''
          = toLowerCase ''Mr.'' @ ''-'' @ replace_spaces (toLowerCase ''Mime'') ''-''"
    using t1 a u s ss r by blast
  then have w1: "replace_spaces (toLowerCase ''Mr.  Mime'') ''-'' = ''mr.-mime''"
    by (simp add: v1 v2)
  have w2: "replace_spaces (toLowerCase ''Mr.'') ''-'' = ''mr.''"
    using t1 au u v3 by simp
  have w3: "replace_spaces (toLowerCase ''mr-mime'') ''-'' = ''mr-mime''"
    using t1 n by blast
  have w4: "lower_char (CHR ''.'') = CHR ''.''"
    using t1 nu by blast
  have "(of_char (lower_char (CHR ''M'')) :: nat) = of_char (CHR ''M'') + 32"
    using t2 up by blast
  show ?thesis
    using w1 w2 w3 w4 n v4 by simp
qed

text \<open>Claim C7 as stated fails: the slug requested for \<open>Mr. Mime\<close> is not \<open>mr-mime\<close>.\<close>

theorem mr_mime_counterexample:
  "fst (get_pokemon_pokedex_info offline invalid_input ''Mr. Mime'')
     = [''https://pokeapi.co/api/v2/pokemon/mr.-mime'']
   \<and> replace_spaces (toLowerCase ''Mr. Mime'') ''-'' \<noteq> ''mr-mime''"
  by code_simp

text \<open>
  Claim C6 as stated fails: for the empty name one upstream request is issued, and the
  error reported is the failure of that request.
\<close>

theorem empty_name_counterexample:
  "replace_spaces (toLowerCase '''') ''-'' = ''''
   \<and> fst (get_pokemon_pokedex_info offline invalid_input '''')
       = [''https://pokeapi.co/api/v2/pokemon/'']
   \<and> snd (get_pokemon_pokedex_info offline invalid_input '''')
       = failure ''Error getting pokemon info: fetch failed''"
  by code_simp

text \<open>
  Claim C5 fails on the code: for the name \<open>Mr Mime\<close> the evolution-chain tool and the
  comparison request \<open>/pokemon/mr mime\<close>, lower-cased only, where
  \<open>get_pokemon_pokedex_info\<close> requests the slug \<open>/pokemon/mr-mime\<close>.
\<close>

theorem slug_without_hyphens:
  "fst (get_pokemon_evolution_chain small_upstream ''Mr Mime'')
     = [''https://pokeapi.co/api/v2/pokemon/mr mime'']
   \<and> fst (compare_pokemon small_upstream [''Pikachu'', ''Mr Mime''])
       = [''https://pokeapi.co/api/v2/pokemon/pikachu'',
          ''https://pokeapi.co/api/v2/pokemon/mr mime'']
   \<and> fst (get_pokemon_pokedex_info offline invalid_input ''Mr Mime'')
       = [''https://pokeapi.co/api/v2/pokemon/mr-mime'']"
  by code_simp

text \<open>
  Claim C4 as stated fails: on an unreachable upstream the type search for \<open>fire\<close> answers
  with a text that has neither the marker \<open>network\<close> nor the context label \<open>Type "fire"\<close>.
\<close>

theorem network_failure_counterexample:
  \<open>text_of (snd (search_pokemon_by_type offline ''fire'' None))
     = ''Error searching Pokemon by type: fetch failed''
   \<and> \<not> js_includes (text_of (snd (search_pokemon_by_type offline ''fire'' None))) ''network''
   \<and> \<not> js_includes (text_of (snd (search_pokemon_by_type offline ''fire'' None))) ''Type "fire"''\<close>
  by code_simp

section \<open>The text of a Pokemon\<close>

lemma digit_value_digit_char: "d < 10 \<Longrightarrow> digit_value (digit_char d) = d"
  by (simp add: digit_value_def digit_char_def)

lemma digit_char_not_point: "d < 10 \<Longrightarrow> digit_char d \<noteq> CHR ''.''"
proof
  assume "d < 10" and "digit_char d = CHR ''.''"
  then have "(of_char (digit_char d) :: nat) = of_char (CHR ''.'')" by simp
  then show False using \<open>d < 10\<close> by (simp add: digit_char_def)
qed

lemma digit_char_not_minus: "d < 10 \<Longrightarrow> digit_char d \<noteq> CHR ''-''"
proof
  assume "d < 10" and "digit_char d = CHR ''-''"
  then have "(of_char (digit_char d) :: nat) = of_char (CHR ''-'')" by simp
  then show False using \<open>d < 10\<close> by (simp add: digit_char_def)
qed

lemma show_nat_digits:
  "\<forall>c \<in> set (show_nat n). c \<noteq> CHR ''.'' \<and> c \<noteq> CHR ''-''"
proof (induction n rule: show_nat.induct)
  case (1 n)
  show ?case
  proof (cases "n < 10")
    case True
    then show ?thesis
      by (simp add: show_nat.simps [of n] digit_char_not_point digit_char_not_minus)
  next
    case False
    then show ?thesis
      using "1.IH" by (simp add: show_nat.simps [of n] digit_char_not_point digit_char_not_minus)
  qed
qed

lemma show_nat_not_Nil: "show_nat n \<noteq> []"
  by (simp add: show_nat.simps [of n])

lemma digits_value_Nil: "digits_value [] = 0"
  by (simp add: digits_value_def)

lemma digits_value_single: "digits_value [c] = digit_value c"
  by (simp add: digits_value_def)

lemma digits_value_snoc: "digits_value (ds @ [c]) = 10 * digits_value ds + digit_value c"
  by (simp add: digits_value_def)

lemma digits_value_show_nat: "digits_value (show_nat n) = n"
proof (induction n rule: show_nat.induct)
  case (1 n)
  show ?case
  proof (cases "n < 10")
    case True
    then show ?thesis
      by (simp add: show_nat.simps [of n] digits_value_def digit_value_digit_char)
  next
    case False
    then show ?thesis
      using "1.IH" by (simp add: show_nat.simps [of n] digits_value_snoc digit_value_digit_char)
  qed
qed

lemma takeWhile_show_nat:
  "takeWhile (\<lambda>c. c \<noteq> CHR ''.'') (show_nat n @ CHR ''.'' # rest) = show_nat n"
  using show_nat_digits [of n] by (simp add: takeWhile_append2 takeWhile_eq_all_conv)

lemma dropWhile_show_nat:
  "dropWhile (\<lambda>c. c \<noteq> CHR ''.'') (show_nat n @ CHR ''.'' # rest) = CHR ''.'' # rest"
  using show_nat_digits [of n] by (simp add: dropWhile_append2)

lemma takeWhile_show_nat_all: "takeWhile (\<lambda>c. c \<noteq> CHR ''.'') (show_nat n) = show_nat n"
  using show_nat_digits [of n] by (simp add: takeWhile_eq_all_conv)

lemma dropWhile_show_nat_all: "dropWhile (\<lambda>c. c \<noteq> CHR ''.'') (show_nat n) = []"
  using show_nat_digits [of n] by simp

lemma tenths_rat: "(of_nat (a div 10) :: rat) + of_nat (a mod 10) / 10 = of_nat a / 10"
proof -
  have "(of_nat a :: rat) = of_nat (10 * (a div 10) + a mod 10)" by simp
  also have "\<dots> = 10 * of_nat (a div 10) + of_nat (a mod 10)"
    by (simp only: of_nat_add of_nat_mult of_nat_numeral)
  finally show ?thesis by simp
qed

lemma unsigned_value_tenths:
  "unsigned_value (show_nat (a div 10) @ (if a mod 10 = 0 then [] else ''.'' @ [digit_char (a mod 10)]))
     = of_nat a / 10"
proof (cases "a mod 10 = 0")
  case True
  have "unsigned_value (show_nat (a div 10)) = of_nat (a div 10)"
    by (simp add: unsigned_value_def takeWhile_show_nat_all dropWhile_show_nat_all
          digits_value_show_nat digits_value_Nil)
  then show ?thesis
    using True tenths_rat [of a] by simp
next
  case False
  have "unsigned_value (show_nat (a div 10) @ CHR ''.'' # [digit_char (a mod 10)])
          = of_nat (a div 10) + of_nat (a mod 10) / 10"
    by (simp add: unsigned_value_def takeWhile_show_nat dropWhile_show_nat
          digits_value_show_nat digits_value_single digit_value_digit_char)
  then show ?thesis
    using False tenths_rat [of a] by simp
qed

lemma decimal_value_show_tenths: "decimal_value (show_tenths n) = of_int n / 10"
proof -
  define a where "a = nat \<bar>n\<bar>"
  define u where "u = show_nat (a div 10) @ (if a mod 10 = 0 then [] else ''.'' @ [digit_char (a mod 10)])"
  have u: "unsigned_value u = of_nat a / 10"
    unfolding u_def by (rule unsigned_value_tenths)
  obtain c cs where ccs: "show_nat (a div 10) = c # cs"
    using show_nat_not_Nil [of "a div 10"] by (cases "show_nat (a div 10)") auto
  have c: "c \<noteq> CHR ''-''"
    using show_nat_digits [of "a div 10"] ccs by simp
  have st: "show_tenths n = (if n < 0 then ''-'' else []) @ u"
    unfolding show_tenths_def Let_def u_def a_def by simp
  show ?thesis
  proof (cases "n < 0")
    case True
    have "int a = - n" using True by (simp add: a_def)
    then have "(of_int n :: rat) = - of_int (int a)" by simp
    then have n: "(of_int n :: rat) = - of_nat a" by (simp only: of_int_of_nat_eq)
    have "decimal_value (show_tenths n) = - unsigned_value u"
      using True by (simp add: st decimal_value_def)
    then show ?thesis
      unfolding u n by simp
  next
    case False
    have "int a = n" using False by (simp add: a_def)
    then have "(of_int n :: rat) = of_int (int a)" by simp
    then have n: "(of_int n :: rat) = of_nat a" by (simp only: of_int_of_nat_eq)
    have "u = c # (cs @ (if a mod 10 = 0 then [] else ''.'' @ [digit_char (a mod 10)]))"
      unfolding u_def ccs by simp
    then obtain rest where rest: "u = c # rest" by blast
    have "decimal_value u = unsigned_value (c # rest)"
      unfolding rest using c by (simp add: decimal_value_def)
    then have "decimal_value (show_tenths n) = unsigned_value u"
      using False by (simp add: st rest)
    then show ?thesis
      unfolding u n by simp
  qed
qed

lemma those_type_slots:
  assumes "list_all2 (\<lambda>slot t. \<exists>s tm. slot = JObj s \<and> map_of s ''type'' = Some (JObj tm)
                                   \<and> map_of tm ''name'' = Some (JStr t)) slots type_names"
  shows "those (map parse_type_slot slots) = Some type_names"
  using assms
  by (induction rule: list_all2_induct) (auto simp: parse_type_slot_def)

lemma PokemonSchema_parse_shape:
  assumes "map_of members ''id'' = Some (JNum i)"
    and "map_of members ''name'' = Some (JStr n)"
    and "map_of members ''height'' = Some (JNum h)"
    and "map_of members ''weight'' = Some (JNum w)"
    and "map_of members ''types'' = Some (JArr slots)"
    and "list_all2 (\<lambda>slot t. \<exists>s tm. slot = JObj s \<and> map_of s ''type'' = Some (JObj tm)
                                   \<and> map_of tm ''name'' = Some (JStr t)) slots type_names"
  shows "PokemonSchema_parse (JObj members)
           = Some \<lparr>p_id = i, p_name = n, p_height = h, p_weight = w, p_types = type_names\<rparr>"
  using assms(1-5) those_type_slots [OF assms(6)]
  by (simp add: PokemonSchema_parse_def)

lemma decimal_value_show_int: "decimal_value (show_int i) = of_int i"
proof -
  define a where "a = nat \<bar>i\<bar>"
  obtain c cs where ccs: "show_nat a = c # cs"
    using show_nat_not_Nil [of a] by (cases "show_nat a") auto
  have c: "c \<noteq> CHR ''-''"
    using show_nat_digits [of a] ccs by simp
  have u: "unsigned_value (show_nat a) = of_nat a"
    by (simp add: unsigned_value_def takeWhile_show_nat_all dropWhile_show_nat_all
          digits_value_show_nat digits_value_Nil)
  have st: "show_int i = (if i < 0 then ''-'' else []) @ show_nat a"
    unfolding show_int_def a_def by simp
  show ?thesis
  proof (cases "i < 0")
    case True
    have "int a = - i" using True by (simp add: a_def)
    then have "(of_int i :: rat) = - of_int (int a)" by simp
    then have n: "(of_int i :: rat) = - of_nat a" by (simp only: of_int_of_nat_eq)
    have "decimal_value (show_int i) = - unsigned_value (show_nat a)"
      using True by (simp add: st decimal_value_def)
    then show ?thesis unfolding u n by simp
  next
    case False
    have "int a = i" using False by (simp add: a_def)
    then have "(of_int i :: rat) = of_int (int a)" by simp
    then have n: "(of_int i :: rat) = of_nat a" by (simp only: of_int_of_nat_eq)
    have "decimal_value (show_nat a) = unsigned_value (c # cs)"
      unfolding ccs using c by (simp add: decimal_value_def)
    then have "decimal_value (show_int i) = unsigned_value (show_nat a)"
      using False by (simp add: st ccs)
    then show ?thesis unfolding u n by simp
  qed
qed

text \<open>
  Claim C1. When the lookup succeeds and the body is an object with the numbers \<open>id\<close>,
  \<open>height\<close>, \<open>weight\<close> (integers below \<open>10^15\<close> in magnitude), the string \<open>name\<close> and the
  array \<open>types\<close> of objects with a \<open>type.name\<close>, the result is the text
  \<open>{Name} (#{id}) - {Type1, Type2} type, {height/10}m tall, {weight/10}kg\<close>: the name and
  the type names with their first letter in upper case, the types in the upstream order
  and separated by a comma and a space, and the numerals rendered for the id, the height
  and the weight denote the upstream id and the upstream height and weight divided by ten.
\<close>

theorem pokemon_info_template:
  assumes "fetch (''https://pokeapi.co/api/v2/pokemon/'' @ replace_spaces (toLowerCase name) ''-'')
             = Resolves r"
    and "ok r"
    and "json_body r = Inr (JObj members)"
    and "map_of members ''id'' = Some (JNum i)"
    and "map_of members ''name'' = Some (JStr n)"
    and "map_of members ''height'' = Some (JNum h)"
    and "map_of members ''weight'' = Some (JNum w)"
    and "map_of members ''types'' = Some (JArr slots)"
    and "list_all2 (\<lambda>slot t. \<exists>s tm. slot = JObj s \<and> map_of s ''type'' = Some (JObj tm)
                                   \<and> map_of tm ''name'' = Some (JStr t)) slots type_names"
    and "\<bar>i\<bar> < 10 ^ 15" and "\<bar>h\<bar> < 10 ^ 15" and "\<bar>w\<bar> < 10 ^ 15"
  shows "snd (get_pokemon_pokedex_info fetch zm name)
           = success (capitalize n @ '' (#'' @ show_int i @ '') - '' @
                      join '', '' (map capitalize type_names) @ '' type, '' @
                      show_tenths h @ ''m tall, '' @ show_tenths w @ ''kg'')
       \<and> (type_names = [t1] \<longrightarrow>
            snd (get_pokemon_pokedex_info fetch zm name)
              = success (capitalize n @ '' (#'' @ show_int i @ '') - '' @ capitalize t1 @
                         '' type, '' @ show_tenths h @ ''m tall, '' @ show_tenths w @ ''kg''))
       \<and> (type_names = [t1, t2] \<longrightarrow>
            snd (get_pokemon_pokedex_info fetch zm name)
              = success (capitalize n @ '' (#'' @ show_int i @ '') - '' @ capitalize t1 @ '', '' @
                         capitalize t2 @ '' type, '' @ show_tenths h @ ''m tall, '' @
                         show_tenths w @ ''kg''))
       \<and> (type_names = t1 # t2 # others \<longrightarrow>
            join '', '' (map capitalize type_names)
              = capitalize t1 @ '', '' @ join '', '' (map capitalize (t2 # others)))
       \<and> capitalize [] = [] \<and> capitalize (c # cs) = upper_char c # cs
       \<and> (\<not> is_lower c \<longrightarrow> upper_char c = c)
       \<and> (is_lower c \<longrightarrow> (of_char (upper_char c) :: nat) = of_char c - 32)
       \<and> decimal_value (show_int i) = of_int i
       \<and> decimal_value (show_tenths h) = of_int h / 10
       \<and> decimal_value (show_tenths w) = of_int w / 10"
proof -
  have parse: "PokemonSchema_parse (JObj members)
           = Some \<lparr>p_id = i, p_name = n, p_height = h, p_weight = w, p_types = type_names\<rparr>"
    using assms(4-9) by (rule PokemonSchema_parse_shape)
  have "snd (get_pokemon_pokedex_info fetch zm name)
          = success (pokemon_info_text \<lparr>p_id = i, p_name = n, p_height = h, p_weight = w, p_types = type_names\<rparr>)"
    using info_valid [of fetch name r "JObj members" _ zm] assms(1-3) parse by simp
  then have res: "snd (get_pokemon_pokedex_info fetch zm name)
           = success (capitalize n @ '' (#'' @ show_int i @ '') - '' @
                      join '', '' (map capitalize type_names) @ '' type, '' @
                      show_tenths h @ ''m tall, '' @ show_tenths w @ ''kg'')"
    by (simp add: pokemon_info_text_def Let_def)
  have one: "type_names = [t1] \<longrightarrow>
            snd (get_pokemon_pokedex_info fetch zm name)
              = success (capitalize n @ '' (#'' @ show_int i @ '') - '' @ capitalize t1 @
                         '' type, '' @ show_tenths h @ ''m tall, '' @ show_tenths w @ ''kg'')"
    unfolding res by simp
  have two: "type_names = [t1, t2] \<longrightarrow>
            snd (get_pokemon_pokedex_info fetch zm name)
              = success (capitalize n @ '' (#'' @ show_int i @ '') - '' @ capitalize t1 @ '', '' @
                         capitalize t2 @ '' type, '' @ show_tenths h @ ''m tall, '' @
                         show_tenths w @ ''kg'')"
    unfolding res by simp
  have mo: "type_names = t1 # t2 # others \<longrightarrow>
            join '', '' (map capitalize type_names)
              = capitalize t1 @ '', '' @ join '', '' (map capitalize (t2 # others))"
    by simp
  show ?thesis
    using res one two mo capitalize_Nil capitalize_Cons [of c cs]
      upper_char_unchanged [of c] upper_char_lower [of c]
      decimal_value_show_int [of i] decimal_value_show_tenths [of h] decimal_value_show_tenths [of w]
    by blast
qed

text \<open>The premises of C1 hold for the document of Onix, which has two types.\<close>

theorem pokemon_info_template_witness:
  "snd (get_pokemon_pokedex_info onix_only invalid_input ''Onix'')
     = success ''Onix (#95) - Rock, Ground type, 8.8m tall, 210kg''
   \<and> decimal_value ''95'' = 95 \<and> decimal_value ''8.8'' = 88 / 10 \<and> decimal_value ''210'' = 2100 / 10
   \<and> is_lower (CHR ''o'') \<and> upper_char (CHR ''o'') = CHR ''O''"
proof -
  define members where "members =
          [(''id'', JNum 95), (''name'', JStr ''onix''), (''height'', JNum 88),
           (''weight'', JNum 2100),
           (''types'', JArr [JObj [(''slot'', JNum 1), (''type'', JObj [(''name'', JStr ''rock'')])],
                             JObj [(''slot'', JNum 2),
                                   (''type'', JObj [(''name'', JStr ''ground'')])]])]"
  define slots where "slots =
          [JObj [(''slot'', JNum 1), (''type'', JObj [(''name'', JStr ''rock'')])],
           JObj [(''slot'', JNum 2), (''type'', JObj [(''name'', JStr ''ground'')])]]"
  have h1: "onix_only (''https://pokeapi.co/api/v2/pokemon/'' @ replace_spaces (toLowerCase ''Onix'') ''-'')
             = Resolves (Response 200 (Inr (JObj members)))"
    by (simp add: onix_only_def onix_json_def members_def)
  have h2: "ok (Response 200 (Inr (JObj members)))" by (simp add: ok_def)
  have h3: "json_body (Response 200 (Inr (JObj members))) = Inr (JObj members)" by simp
  have h4: "map_of members ''id'' = Some (JNum 95)" by (simp add: members_def)
  have h5: "map_of members ''name'' = Some (JStr ''onix'')" by (simp add: members_def)
  have h6: "map_of members ''height'' = Some (JNum 88)" by (simp add: members_def)
  have h7: "map_of members ''weight'' = Some (JNum 2100)" by (simp add: members_def)
  have h8: "map_of members ''types'' = Some (JArr slots)"
    by (simp add: members_def slots_def)
  have h9: "list_all2 (\<lambda>slot t. \<exists>s tm. slot = JObj s \<and> map_of s ''type'' = Some (JObj tm)
                                   \<and> map_of tm ''name'' = Some (JStr t))
              slots [''rock'', ''ground'']"
    by (simp add: slots_def)
  have b1: "\<bar>95 :: int\<bar> < 10 ^ 15" by simp
  have b2: "\<bar>88 :: int\<bar> < 10 ^ 15" by simp
  have b3: "\<bar>2100 :: int\<bar> < 10 ^ 15" by simp
  have lo: "is_lower (CHR ''o'')" by code_simp
  have c1: "capitalize ''onix'' = ''Onix''" by code_simp
  have c2: "show_int 95 = ''95''" by code_simp
  have c3: "capitalize ''rock'' = ''Rock''" by code_simp
  have c4: "capitalize ''ground'' = ''Ground''" by code_simp
  have v2: "show_tenths 88 = ''8.8''" by code_simp
  have v3: "show_tenths 2100 = ''210''" by code_simp
  have up: "upper_char (CHR ''o'') = CHR ''O''" by code_simp
  note t = pokemon_info_template [where fetch = onix_only and name = "''Onix''"
        and r = "Response 200 (Inr (JObj members))" and members = members
        and i = 95 and n = "''onix''" and h = 88 and w = 2100 and slots = slots
        and type_names = "[''rock'', ''ground'']" and ?t1.0 = "''rock''" and ?t2.0 = "''ground''"
        and others = "[]" and c = "CHR ''o''" and cs = "''nix''" and zm = invalid_input,
        OF h1 h2 h3 h4 h5 h6 h7 h8 h9 b1 b2 b3]
  have two: "snd (get_pokemon_pokedex_info onix_only invalid_input ''Onix'')
              = success (capitalize ''onix'' @ '' (#'' @ show_int 95 @ '') - '' @ capitalize ''rock'' @ '', '' @
                         capitalize ''ground'' @ '' type, '' @ show_tenths 88 @ ''m tall, '' @
                         show_tenths 2100 @ ''kg'')"
    using t by blast
  have d: "decimal_value (show_int 95) = of_int 95
       \<and> decimal_value (show_tenths 88) = of_int 88 / 10
       \<and> decimal_value (show_tenths 2100) = of_int 2100 / 10"
    using t by blast
  have "(of_char (upper_char (CHR ''o'')) :: nat) = of_char (CHR ''o'') - 32"
    using t lo by blast
  show ?thesis
    using two d lo up by (simp add: c1 c2 c3 c4 v2 v3)
qed

section \<open>The comparison table\<close>

lemma six_elements:
  assumes "length (xs :: int list) = 6"
  obtains a b c d e f where "xs = [a, b, c, d, e, f]"
proof -
  from assms obtain a r1 where 1: "xs = a # r1" "length r1 = 5" by (cases xs) auto
  then obtain b r2 where 2: "r1 = b # r2" "length r2 = 4" by (cases r1) auto
  then obtain c r3 where 3: "r2 = c # r3" "length r3 = 3" by (cases r2) auto
  then obtain d r4 where 4: "r3 = d # r4" "length r4 = 2" by (cases r3) auto
  then obtain e r5 where 5: "r4 = e # r5" "length r5 = 1" by (cases r4) auto
  then obtain f r6 where 6: "r5 = f # r6" "length r6 = 0" by (cases r5) auto
  show ?thesis using that 1 2 3 4 5 6 by simp
qed

lemma make_row_six:
  "length (data_stats d) = 6 \<Longrightarrow> make_row (PokemonData d) = Inr (row_of d)"
  by (simp add: make_row_def)

lemma row_of_six:
  assumes "data_stats d = map Number base" and "length base = 6"
  shows "hp (row_stats (row_of d)) = Number (base ! 0)
       \<and> attack (row_stats (row_of d)) = Number (base ! 1)
       \<and> defense (row_stats (row_of d)) = Number (base ! 2)
       \<and> specialAttack (row_stats (row_of d)) = Number (base ! 3)
       \<and> specialDefense (row_stats (row_of d)) = Number (base ! 4)
       \<and> speed (row_stats (row_of d)) = Number (base ! 5)
       \<and> total (row_of d)
           = Number (base ! 0 + base ! 1 + base ! 2 + base ! 3 + base ! 4 + base ! 5)"
proof -
  obtain a b c e f g where "base = [a, b, c, e, f, g]"
    using assms(2) by (rule six_elements)
  then show ?thesis using assms(1) by (simp add: row_of_def)
qed

lemma fetch_rows_ok:
  assumes "\<forall>name \<in> set names. \<exists>r.
             fetch (''https://pokeapi.co/api/v2/pokemon/'' @ toLowerCase name) = Resolves r
             \<and> ok r \<and> json_body r = Inr (PokemonData (doc name))
             \<and> length (data_stats (doc name)) = 6"
  shows "fetch_rows fetch names pokemonData requests
           = (requests @ map (\<lambda>name. ''https://pokeapi.co/api/v2/pokemon/'' @ toLowerCase name) names,
              Inr (pokemonData @ map (\<lambda>name. row_of (doc name)) names))"
  using assms
proof (induction names arbitrary: pokemonData requests)
  case Nil
  show ?case by simp
next
  case (Cons name names)
  define url where "url = ''https://pokeapi.co/api/v2/pokemon/'' @ toLowerCase name"
  define c where \<open>c = ''Pokemon "'' @ name @ ''"''\<close>
  have step: "fetch_rows fetch (name # names) pokemonData requests =
     (case get_json fetch url c of
        Inl error \<Rightarrow> (requests @ [url], Inl error)
      | Inr data \<Rightarrow>
          (case make_row data of
             Inl error \<Rightarrow> (requests @ [url], Inl error)
           | Inr r \<Rightarrow> fetch_rows fetch names (pokemonData @ [r]) (requests @ [url])))"
    unfolding url_def c_def fetch_rows.simps Let_def by (rule refl)
  obtain r where r: "fetch url = Resolves r" "ok r" "json_body r = Inr (PokemonData (doc name))"
      and six: "length (data_stats (doc name)) = 6"
    using Cons.prems unfolding url_def by auto
  have j: "get_json fetch url c = Inr (PokemonData (doc name))"
    using r by (simp add: get_json_def)
  have rest: "\<forall>name \<in> set names. \<exists>r.
             fetch (''https://pokeapi.co/api/v2/pokemon/'' @ toLowerCase name) = Resolves r
             \<and> ok r \<and> json_body r = Inr (PokemonData (doc name))
             \<and> length (data_stats (doc name)) = 6"
    using Cons.prems by simp
  have "fetch_rows fetch (name # names) pokemonData requests
          = fetch_rows fetch names (pokemonData @ [row_of (doc name)]) (requests @ [url])"
    unfolding step j by (simp add: make_row_six [OF six])
  also have "\<dots> = ((requests @ [url]) @ map (\<lambda>name. ''https://pokeapi.co/api/v2/pokemon/'' @ toLowerCase name) names,
              Inr ((pokemonData @ [row_of (doc name)]) @ map (\<lambda>name. row_of (doc name)) names))"
    by (rule Cons.IH [OF rest])
  finally show ?case
    by (simp add: url_def)
qed

lemma render_table_concat: "render_table rows = table_header @ concat (map table_row rows)"
  by (simp add: render_table_def foldl_append_concat)

text \<open>
  Claim C2. When every fetch of a comparison succeeds with a Pokemon document whose
  \<open>stats\<close> are exactly six base stats, the table has one row for each requested name, in
  the order of the names, each row holds the six stats in the order hp, attack, defense,
  special attack, special defense, speed, and its total is their sum.
\<close>

theorem comparison_rows:
  assumes "\<forall>name \<in> set names. \<exists>r.
             fetch (''https://pokeapi.co/api/v2/pokemon/'' @ toLowerCase name) = Resolves r
             \<and> ok r \<and> json_body r = Inr (PokemonData (doc name))
             \<and> data_stats (doc name) = map Number (base name)
             \<and> length (base name) = 6"
  shows "fst (compare_pokemon fetch names)
           = map (\<lambda>name. ''https://pokeapi.co/api/v2/pokemon/'' @ toLowerCase name) names
       \<and> snd (compare_pokemon fetch names)
           = success (table_header @ concat (map (\<lambda>name. table_row (row_of (doc name))) names))
       \<and> length (map (\<lambda>name. table_row (row_of (doc name))) names) = length names
       \<and> (\<forall>name \<in> set names.
            table_row (row_of (doc name))
              = padEnd (capitalize (data_name (doc name))) 15 @
                padEnd (join '', '' (map capitalize (data_types (doc name)))) 20 @
                padEnd (show_int (base name ! 0)) 5 @
                padEnd (show_int (base name ! 1)) 5 @
                padEnd (show_int (base name ! 2)) 5 @
                padEnd (show_int (base name ! 3)) 5 @
                padEnd (show_int (base name ! 4)) 5 @
                padEnd (show_int (base name ! 5)) 5 @
                show_int (base name ! 0 + base name ! 1 + base name ! 2
                          + base name ! 3 + base name ! 4 + base name ! 5) @ ''\<newline>''
            \<and> hp (row_stats (row_of (doc name))) = Number (base name ! 0)
            \<and> attack (row_stats (row_of (doc name))) = Number (base name ! 1)
            \<and> defense (row_stats (row_of (doc name))) = Number (base name ! 2)
            \<and> specialAttack (row_stats (row_of (doc name))) = Number (base name ! 3)
            \<and> specialDefense (row_stats (row_of (doc name))) = Number (base name ! 4)
            \<and> speed (row_stats (row_of (doc name))) = Number (base name ! 5)
            \<and> total (row_of (doc name))
                = Number (base name ! 0 + base name ! 1 + base name ! 2
                          + base name ! 3 + base name ! 4 + base name ! 5)
            \<and> total (row_of (doc name))
                = js_add (js_add (js_add (js_add (js_add
                    (hp (row_stats (row_of (doc name))))
                    (attack (row_stats (row_of (doc name)))))
                    (defense (row_stats (row_of (doc name)))))
                    (specialAttack (row_stats (row_of (doc name)))))
                    (specialDefense (row_stats (row_of (doc name)))))
                    (speed (row_stats (row_of (doc name)))))"
proof -
  have len: "\<forall>name \<in> set names. \<exists>r.
             fetch (''https://pokeapi.co/api/v2/pokemon/'' @ toLowerCase name) = Resolves r
             \<and> ok r \<and> json_body r = Inr (PokemonData (doc name))
             \<and> length (data_stats (doc name)) = 6"
    using assms by fastforce
  have rows: "fetch_rows fetch names [] []
           = (map (\<lambda>name. ''https://pokeapi.co/api/v2/pokemon/'' @ toLowerCase name) names,
              Inr (map (\<lambda>name. row_of (doc name)) names))"
    using fetch_rows_ok [of names fetch doc "[]" "[]"] len by simp
  have reqs: "fst (compare_pokemon fetch names)
           = map (\<lambda>name. ''https://pokeapi.co/api/v2/pokemon/'' @ toLowerCase name) names"
    unfolding compare_fst rows by simp
  have res: "snd (compare_pokemon fetch names)
           = success (table_header @ concat (map (\<lambda>name. table_row (row_of (doc name))) names))"
    unfolding compare_snd rows
    by (simp add: catch_all_Inr render_table_concat comp_def)
  have row: "table_row (row_of (doc name))
              = padEnd (capitalize (data_name (doc name))) 15 @
                padEnd (join '', '' (map capitalize (data_types (doc name)))) 20 @
                padEnd (show_int (base name ! 0)) 5 @
                padEnd (show_int (base name ! 1)) 5 @
                padEnd (show_int (base name ! 2)) 5 @
                padEnd (show_int (base name ! 3)) 5 @
                padEnd (show_int (base name ! 4)) 5 @
                padEnd (show_int (base name ! 5)) 5 @
                show_int (base name ! 0 + base name ! 1 + base name ! 2
                          + base name ! 3 + base name ! 4 + base name ! 5) @ ''\<newline>''
            \<and> hp (row_stats (row_of (doc name))) = Number (base name ! 0)
            \<and> attack (row_stats (row_of (doc name))) = Number (base name ! 1)
            \<and> defense (row_stats (row_of (doc name))) = Number (base name ! 2)
            \<and> specialAttack (row_stats (row_of (doc name))) = Number (base name ! 3)
            \<and> specialDefense (row_stats (row_of (doc name))) = Number (base name ! 4)
            \<and> speed (row_stats (row_of (doc name))) = Number (base name ! 5)
            \<and> total (row_of (doc name))
                = Number (base name ! 0 + base name ! 1 + base name ! 2
                          + base name ! 3 + base name ! 4 + base name ! 5)
            \<and> total (row_of (doc name))
                = js_add (js_add (js_add (js_add (js_add
                    (hp (row_stats (row_of (doc name))))
                    (attack (row_stats (row_of (doc name)))))
                    (defense (row_stats (row_of (doc name)))))
                    (specialAttack (row_stats (row_of (doc name)))))
                    (specialDefense (row_stats (row_of (doc name)))))
                    (speed (row_stats (row_of (doc name))))"
    if "name \<in> set names" for name
  proof -
    have st: "data_stats (doc name) = map Number (base name)" and six: "length (base name) = 6"
      using assms that by auto
    note f = row_of_six [OF st six]
    have fields: "row_name (row_of (doc name)) = capitalize (data_name (doc name))"
      "row_types (row_of (doc name)) = join '', '' (map capitalize (data_types (doc name)))"
      by (simp_all add: row_of_def)
    show ?thesis
      unfolding table_row_def fields using f by (simp add: template_value_def)
  qed
  show ?thesis
    using reqs res row by simp
qed

text \<open>The premise of C2 holds for Pikachu and Raichu on the small upstream.\<close>

theorem comparison_rows_witness:
  "snd (compare_pokemon small_upstream [''Pikachu'', ''raichu''])
     = success (table_header @
         ''Pikachu        Electric            35   55   40   50   50   90   320\<newline>'' @
         ''Raichu         Electric            60   90   55   90   80   110  485\<newline>'')"
proof -
  have h: "\<forall>name \<in> set [''Pikachu'', ''raichu'']. \<exists>r.
             small_upstream (''https://pokeapi.co/api/v2/pokemon/'' @ toLowerCase name) = Resolves r
             \<and> ok r \<and> json_body r = Inr (PokemonData (small_docs name))
             \<and> data_stats (small_docs name) = map Number (small_base_stats name)
             \<and> length (small_base_stats name) = 6"
  proof -
    have p: "small_upstream (''https://pokeapi.co/api/v2/pokemon/'' @ toLowerCase ''Pikachu'')
               = Resolves (Response 200 (Inr (PokemonData (small_docs ''Pikachu''))))"
      by code_simp
    have q: "small_upstream (''https://pokeapi.co/api/v2/pokemon/'' @ toLowerCase ''raichu'')
               = Resolves (Response 200 (Inr (PokemonData (small_docs ''raichu''))))"
      by code_simp
    have sp: "data_stats (small_docs ''Pikachu'') = map Number (small_base_stats ''Pikachu'')"
      by code_simp
    have sq: "data_stats (small_docs ''raichu'') = map Number (small_base_stats ''raichu'')"
      by code_simp
    have lp: "length (small_base_stats ''Pikachu'') = 6" by code_simp
    have lq: "length (small_base_stats ''raichu'') = 6" by code_simp
    have okp: "ok (Response 200 (Inr (PokemonData (small_docs ''Pikachu''))))" by (simp add: ok_def)
    have okq: "ok (Response 200 (Inr (PokemonData (small_docs ''raichu''))))" by (simp add: ok_def)
    show ?thesis using p q sp sq lp lq okp okq by simp
  qed
  have v1: "table_row (row_of (small_docs ''Pikachu''))
              = ''Pikachu        Electric            35   55   40   50   50   90   320\<newline>''"
    by code_simp
  have v2: "table_row (row_of (small_docs ''raichu''))
              = ''Raichu         Electric            60   90   55   90   80   110  485\<newline>''"
    by code_simp
  note t = comparison_rows [of "[''Pikachu'', ''raichu'']" small_upstream small_docs small_base_stats, OF h]
  have "snd (compare_pokemon small_upstream [''Pikachu'', ''raichu''])
           = success (table_header @ concat (map (\<lambda>name. table_row (row_of (small_docs name)))
                [''Pikachu'', ''raichu'']))"
    using t by blast
  then show ?thesis
    by (simp add: v1 v2)
qed

end
